theory Spec2Isabelle
  imports Main "HOL-Library.Word"
begin

unbundle bit_operations_syntax

section \<open>Values exchanged with the libraries\<close>

text \<open>
  The service is a Go program built on \<^verbatim>\<open>net/http\<close>, \<^verbatim>\<open>zap\<close> and
  \<^verbatim>\<open>google/uuid\<close>. A handler acts on the world only through the methods of the
  \<^verbatim>\<open>http.ResponseWriter\<close> it is given and through the logger, so the behaviour of
  a handler on a request is the sequence of calls it completes, followed by the way it
  ends: it returns, or it panics with a value.
\<close>

datatype json =
    JString string
  | JNumber int
  | JArray "json list"
  | JObject "(string \<times> json) list"

text \<open>
  A body is the list of writes it was made of. \<open>Text s\<close> is the bytes \<open>s\<close>;
  \<open>JsonLine j\<close> is what \<^verbatim>\<open>json.NewEncoder(w).Encode(v)\<close> writes for a struct whose
  tagged fields are the members of \<open>j\<close> (the serialisation itself is kept symbolic).
\<close>

datatype body_part = Text string | JsonLine json

datatype panic_value = PanicWith string

datatype level = DebugLevel | InfoLevel | WarnLevel | ErrorLevel | FatalLevel

datatype field_value =
    FString string
  | FInt int
  | FDuration int
  | FAny panic_value
  | FError string

datatype log_record =
  Entry (lvl: level) (msg: string) (fields: "(string \<times> field_value) list")

datatype call =
    HeaderSet string string
  | HeaderDel string
  | WriteHeader nat
  | Write body_part
  | Log log_record

datatype exit = Returned | Panicked panic_value

type_synonym behaviour = "call list \<times> exit"

subsection \<open>Request and context\<close>

text \<open>
  \<^verbatim>\<open>type key int; const requestIDKey key = 0\<close>: the key type is private to the
  middleware package, so no other package can store under \<open>requestIDKey\<close>. A context
  value has any type; \<^verbatim>\<open>.(string)\<close> succeeds on \<open>StringValue\<close> only.
\<close>

datatype ctx_key = requestIDKey | ForeignKey nat

datatype ctx_value = StringValue string | OtherValue

type_synonym go_context = "ctx_key \<rightharpoonup> ctx_value"

type_synonym header_map = "string \<rightharpoonup> string list"

record request =
  Method :: string
  Path :: string
  Header :: header_map
  Context :: go_context
  RemoteAddr :: string

type_synonym handler = "request \<Rightarrow> behaviour"

text \<open>
  \<^verbatim>\<open>Header.Get\<close>: the first value stored under the key, the empty string when
  there is none. Keys are written as the source writes them; \<^verbatim>\<open>Get\<close> and
  \<^verbatim>\<open>Set\<close> canonicalise the key in the same way.
\<close>

definition Header_Get :: "header_map \<Rightarrow> string \<Rightarrow> string" where
  "Header_Get h k = (case h k of Some (v # _) \<Rightarrow> v | _ \<Rightarrow> [])"

definition UserAgent :: "request \<Rightarrow> string" where
  "UserAgent r = Header_Get (Header r) ''User-Agent''"

subsection \<open>The response writer of the server\<close>

text \<open>
  The contract of \<^verbatim>\<open>http.ResponseWriter\<close>, as the server's writer and the
  \<^verbatim>\<open>httptest.ResponseRecorder\<close> of the tests implement it: the header map stays
  writable, but what is sent is its content at the first \<^verbatim>\<open>WriteHeader\<close>; a later
  \<^verbatim>\<open>WriteHeader\<close> is ignored; \<^verbatim>\<open>Write\<close> first sends the header with status
  200 when none was sent, then appends to the body. A handler that returns without
  sending a header gets status 200. The response is what the writer was handed: rules of
  the transport (no body for a HEAD request or a 204 status, a declared Content-Length,
  a sniffed content type) are outside this model.
\<close>

record response =
  header :: header_map
  wroteHeader :: bool
  status :: nat
  sentHeader :: header_map
  body :: "body_part list"

definition new_response :: response where
  "new_response =
     \<lparr>header = Map.empty, wroteHeader = False, status = 0,
      sentHeader = Map.empty, body = []\<rparr>"

definition writeHeader :: "nat \<Rightarrow> response \<Rightarrow> response" where
  "writeHeader code w =
     (if wroteHeader w then w
      else w\<lparr>wroteHeader := True, status := code, sentHeader := header w\<rparr>)"

fun apply_call :: "response \<Rightarrow> call \<Rightarrow> response" where
  "apply_call w (HeaderSet k v) = w\<lparr>header := (header w)(k \<mapsto> [v])\<rparr>"
| "apply_call w (HeaderDel k) = w\<lparr>header := (header w)(k := None)\<rparr>"
| "apply_call w (WriteHeader code) = writeHeader code w"
| "apply_call w (Write p) =
     (let w' = writeHeader 200 w in w'\<lparr>body := body w' @ [p]\<rparr>)"
| "apply_call w (Log e) = w"

definition finishRequest :: "response \<Rightarrow> response" where
  "finishRequest w = writeHeader 200 w"

fun logged :: "call list \<Rightarrow> log_record list" where
  "logged [] = []"
| "logged (Log e # cs) = e # logged cs"
| "logged (_ # cs) = logged cs"

record served =
  resp :: response
  log :: "log_record list"
  outcome :: exit

text \<open>
  One request served on a fresh connection. When the handler panics the server drops
  the connection, so the response is finished only after a return.
\<close>

definition serve :: "handler \<Rightarrow> request \<Rightarrow> served" where
  "serve h r =
     (case h r of (cs, ex) \<Rightarrow>
        let w = foldl apply_call new_response cs in
        \<lparr>resp = (case ex of Returned \<Rightarrow> finishRequest w | Panicked _ \<Rightarrow> w),
         log = logged cs,
         outcome = ex\<rparr>)"

text \<open>
  Two observations on a call: it stores or deletes the header \<open>k\<close>; it sends part of
  the response (the header block, or body bytes and with them the header block).
\<close>

fun sets_header :: "string \<Rightarrow> call \<Rightarrow> bool" where
  "sets_header k (HeaderSet k' v) = (k' = k)"
| "sets_header k (HeaderDel k') = (k' = k)"
| "sets_header k _ = False"

fun sends :: "call \<Rightarrow> bool" where
  "sends (WriteHeader code) = True"
| "sends (Write p) = True"
| "sends _ = False"

text \<open>Calls made first, then the behaviour of the rest of the function body.\<close>

definition prepend :: "call list \<Rightarrow> behaviour \<Rightarrow> behaviour" where
  "prepend cs b = (cs @ fst b, snd b)"

section \<open>Package middleware\<close>

definition GetRequestID :: "go_context \<Rightarrow> string" where
  "GetRequestID ctx =
     (case ctx requestIDKey of Some (StringValue rid) \<Rightarrow> rid | _ \<Rightarrow> ''unknown'')"

subsection \<open>Identifiers of \<^verbatim>\<open>google/uuid\<close>\<close>

text \<open>
  \<^verbatim>\<open>type UUID [16]byte\<close>. \<^verbatim>\<open>uuid.New()\<close> fills the array from the random
  source and stamps version 4 and the RFC 4122 variant on bytes 6 and 8;
  \<^verbatim>\<open>String()\<close> renders the bytes in lower-case hexadecimal, grouped 4-2-2-2-6 with
  dashes. The array as the random source filled it is an input.
\<close>

definition hex_digit :: "nat \<Rightarrow> char" where
  "hex_digit n = ''0123456789abcdef'' ! (n mod 16)"

definition hex_byte :: "8 word \<Rightarrow> string" where
  "hex_byte b = [hex_digit (unat b div 16), hex_digit (unat b mod 16)]"

definition encodeHex :: "8 word list \<Rightarrow> string" where
  "encodeHex bs = concat (map hex_byte bs)"

typedef UUID = "{bs :: 8 word list. length bs = 16}"
  by (rule exI [of _ "replicate 16 0"]) simp

setup_lifting type_definition_UUID

lift_definition uuid_New :: "UUID \<Rightarrow> UUID" is
  "\<lambda>uuid. (uuid[6 := (uuid ! 6 AND 0x0f) OR 0x40])[8 := (uuid ! 8 AND 0x3f) OR 0x80]"
  by simp

definition uuid_String :: "UUID \<Rightarrow> string" where
  "uuid_String uuid =
     (let u = Rep_UUID uuid
      in encodeHex (take 4 u) @ ''-'' @
         encodeHex (take 2 (drop 4 u)) @ ''-'' @
         encodeHex (take 2 (drop 6 u)) @ ''-'' @
         encodeHex (take 2 (drop 8 u)) @ ''-'' @
         encodeHex (take 6 (drop 10 u)))"

text \<open>
  The 122 bits of a reading that \<^verbatim>\<open>uuid.New()\<close> keeps: all of it but the four
  high bits of byte 6 and the two high bits of byte 8.
\<close>

definition random_bits :: "UUID \<Rightarrow> 8 word list" where
  "random_bits rnd =
     (let u = Rep_UUID rnd in u[6 := u ! 6 AND 0x0f, 8 := u ! 8 AND 0x3f])"

subsection \<open>RequestID\<close>

definition request_id :: "UUID \<Rightarrow> request \<Rightarrow> string" where
  "request_id rnd r =
     (let rid = Header_Get (Header r) ''X-Request-ID''
      in if rid = [] then uuid_String (uuid_New rnd) else rid)"

definition with_request_id :: "string \<Rightarrow> request \<Rightarrow> request" where
  "with_request_id rid r = r\<lparr>Context := (Context r)(requestIDKey \<mapsto> StringValue rid)\<rparr>"

definition RequestID :: "UUID \<Rightarrow> handler \<Rightarrow> handler" where
  "RequestID rnd next r =
     (let rid = request_id rnd r;
          r' = with_request_id rid r
      in prepend [HeaderSet ''X-Request-ID'' rid] (next r'))"

subsection \<open>Logging\<close>

text \<open>
  \<^verbatim>\<open>responseWriter\<close> embeds the writer it wraps: every method but
  \<^verbatim>\<open>WriteHeader\<close> is the wrapped writer's own, and \<^verbatim>\<open>WriteHeader\<close> records the
  code before passing it on. The calls reaching the wrapped writer are therefore the
  calls made on the wrapper, and the recorded code is that of the last
  \<^verbatim>\<open>WriteHeader\<close> among them.
\<close>

record responseWriter =
  statusCode :: nat

definition newResponseWriter :: responseWriter where
  "newResponseWriter = \<lparr>statusCode = 200\<rparr>"

fun rw_call :: "responseWriter \<Rightarrow> call \<Rightarrow> responseWriter" where
  "rw_call rw (WriteHeader code) = rw\<lparr>statusCode := code\<rparr>"
| "rw_call rw _ = rw"

definition completed_record :: "request \<Rightarrow> responseWriter \<Rightarrow> int \<Rightarrow> log_record" where
  "completed_record r wrapped duration =
     Entry InfoLevel ''request completed''
       [(''request_id'', FString (GetRequestID (Context r))),
        (''method'', FString (Method r)),
        (''path'', FString (Path r)),
        (''status'', FInt (int (statusCode wrapped))),
        (''duration'', FDuration duration),
        (''remote_addr'', FString (RemoteAddr r)),
        (''user_agent'', FString (UserAgent r))]"

text \<open>
  The log call follows \<^verbatim>\<open>next.ServeHTTP\<close> without a \<^verbatim>\<open>defer\<close>: a panic of
  \<open>next\<close> passes through and nothing is logged. \<open>duration\<close> is the reading of
  \<^verbatim>\<open>time.Since(start)\<close>.
\<close>

definition Logging :: "int \<Rightarrow> handler \<Rightarrow> handler" where
  "Logging duration next r =
     (case next r of
        (cs, Panicked p) \<Rightarrow> (cs, Panicked p)
      | (cs, Returned) \<Rightarrow>
          (let wrapped = foldl rw_call newResponseWriter cs
           in (cs @ [Log (completed_record r wrapped duration)], Returned)))"

subsection \<open>Recovery\<close>

text \<open>
  \<^verbatim>\<open>http.Error\<close> of the standard library: it deletes Content-Length, sets the
  content type to plain text and \<^verbatim>\<open>nosniff\<close>, writes the header with the code and
  prints the message with \<^verbatim>\<open>fmt.Fprintln\<close>, that is, followed by a line feed.
\<close>

definition http_Error :: "string \<Rightarrow> nat \<Rightarrow> call list" where
  "http_Error err code =
     [HeaderDel ''Content-Length'',
      HeaderSet ''Content-Type'' ''text/plain; charset=utf-8'',
      HeaderSet ''X-Content-Type-Options'' ''nosniff'',
      WriteHeader code,
      Write (Text (err @ [CHR 0x0A]))]"

definition internal_error_body :: string where
  \<open>internal_error_body = ''{"error":"internal server error"}''\<close>

definition panic_record :: "request \<Rightarrow> panic_value \<Rightarrow> string \<Rightarrow> log_record" where
  "panic_record r rec stack =
     Entry ErrorLevel ''panic recovered''
       [(''request_id'', FString (GetRequestID (Context r))),
        (''path'', FString (Path r)),
        (''error'', FAny rec),
        (''stack'', FString stack)]"

text \<open>
  The deferred function runs on every exit of \<^verbatim>\<open>next.ServeHTTP\<close>;
  \<^verbatim>\<open>recover()\<close> is non-nil exactly when \<open>next\<close> panicked (Go 1.21 and later turn
  \<^verbatim>\<open>panic(nil)\<close> into a non-nil runtime error). \<open>stack\<close> is the reading of
  \<^verbatim>\<open>debug.Stack()\<close>.
\<close>

definition Recovery :: "string \<Rightarrow> handler \<Rightarrow> handler" where
  "Recovery stack next r =
     (case next r of
        (cs, Returned) \<Rightarrow> (cs, Returned)
      | (cs, Panicked rec) \<Rightarrow>
          (cs @ [Log (panic_record r rec stack)] @ http_Error internal_error_body 500,
           Returned))"

subsection \<open>CORS\<close>

definition cors_headers :: "call list" where
  "cors_headers =
     [HeaderSet ''Access-Control-Allow-Origin'' ''*'',
      HeaderSet ''Access-Control-Allow-Methods'' ''GET, POST, OPTIONS'',
      HeaderSet ''Access-Control-Allow-Headers'' ''Content-Type, X-Request-ID'']"

definition CORS :: "handler \<Rightarrow> handler" where
  "CORS next r =
     prepend cors_headers
       (if Method r = ''OPTIONS'' then ([WriteHeader 204], Returned) else next r)"

subsection \<open>The chain composed in \<^verbatim>\<open>main\<close>\<close>

definition main_handler :: "UUID \<Rightarrow> int \<Rightarrow> string \<Rightarrow> handler \<Rightarrow> handler" where
  "main_handler rnd duration stack mux =
     RequestID rnd (Logging duration (Recovery stack (CORS mux)))"

section \<open>Numbers of the Go runtime\<close>

text \<open>
  \<^verbatim>\<open>float64(b)\<close> for an unsigned 64-bit \<open>b\<close> is \<open>b\<close> rounded to 53 significant
  bits, ties to even; its value is again a natural number.
\<close>

fun bitlen :: "nat \<Rightarrow> nat" where
  "bitlen n = (if n = 0 then 0 else Suc (bitlen (n div 2)))"

declare bitlen.simps [simp del]

definition round_half_even :: "nat \<Rightarrow> nat \<Rightarrow> nat" where
  "round_half_even num den =
     (let q = num div den; r = num mod den
      in if 2 * r > den \<or> (2 * r = den \<and> odd q) then q + 1 else q)"

definition float64_of_uint64 :: "64 word \<Rightarrow> nat" where
  "float64_of_uint64 b =
     (let n = unat b
      in if bitlen n \<le> 53 then n
         else let e = bitlen n - 53 in round_half_even n (2 ^ e) * 2 ^ e)"

text \<open>
  A non-negative double is \<open>Finite a b\<close>, of value \<open>a / b\<close>, or infinity.
  \<open>round_float64 num den\<close> is the double nearest to \<open>num / den\<close>, ties to even: 53
  significant bits, no exponent below \<open>- 1074\<close> (gradual underflow), infinity from
  \<open>2 ^ 1024\<close> on. The four operations are the ones \<^verbatim>\<open>time.ParseDuration\<close> uses;
  there the product is finite and below \<open>2 ^ 64\<close>, so the value given to the
  conversion of infinity is never used.
\<close>

datatype float64 = Finite nat nat | Infinity

definition floor_log2 :: "nat \<Rightarrow> nat \<Rightarrow> int" where
  "floor_log2 num den =
     (let k = int (bitlen num) - int (bitlen den)
      in if (if 0 \<le> k then den * 2 ^ nat k \<le> num else den \<le> num * 2 ^ nat (- k))
         then k else k - 1)"

definition round_float64 :: "nat \<Rightarrow> nat \<Rightarrow> float64" where
  "round_float64 num den =
     (if num = 0 then Finite 0 1
      else
        let e = max (floor_log2 num den - 52) (- 1074)
        in if 0 \<le> e
           then
             let m = round_half_even num (den * 2 ^ nat e)
             in if 2 ^ 1024 \<le> m * 2 ^ nat e then Infinity else Finite (m * 2 ^ nat e) 1
           else Finite (round_half_even (num * 2 ^ nat (- e)) den) (2 ^ nat (- e)))"

fun times10 :: "float64 \<Rightarrow> float64" where
  "times10 (Finite a b) = round_float64 (a * 10) b"
| "times10 Infinity = Infinity"

fun divided_by :: "nat \<Rightarrow> float64 \<Rightarrow> float64" where
  "divided_by unit (Finite a b) = round_float64 (unit * b) a"
| "divided_by unit Infinity = Finite 0 1"

fun times :: "nat \<Rightarrow> float64 \<Rightarrow> float64" where
  "times x (Finite a b) = round_float64 (x * a) b"
| "times x Infinity = Infinity"

fun truncate_uint64 :: "float64 \<Rightarrow> nat" where
  "truncate_uint64 (Finite a b) = (a div b) mod 2 ^ 64"
| "truncate_uint64 Infinity = 2 ^ 63"

section \<open>Package config\<close>

record Config =
  ServiceName :: string
  Version :: string
  Environment :: string
  Port :: int
  ReadTimeout :: int
  WriteTimeout :: int
  IdleTimeout :: int
  ShutdownTimeout :: int
  LogLevel :: string

text \<open>
  The process environment maps a name to its value (\<^verbatim>\<open>os.LookupEnv\<close>). A
  \<^verbatim>\<open>time.Duration\<close> is a count of nanoseconds. \<^verbatim>\<open>strconv.Atoi\<close> and
  \<^verbatim>\<open>time.ParseDuration\<close> belong to the standard library: the loader takes them
  as parameters, \<open>None\<close> standing for a returned error.
\<close>

type_synonym environ = "string \<rightharpoonup> string"

definition Second :: int where
  "Second = 1000000000"

definition getEnv :: "environ \<Rightarrow> string \<Rightarrow> string \<Rightarrow> string" where
  "getEnv env key defaultValue =
     (case env key of Some v \<Rightarrow> v | None \<Rightarrow> defaultValue)"

definition getEnvInt :: "(string \<Rightarrow> int option) \<Rightarrow> environ \<Rightarrow> string \<Rightarrow> int \<Rightarrow> int" where
  "getEnvInt atoi env key defaultValue =
     (case env key of
        Some v \<Rightarrow> (case atoi v of Some intVal \<Rightarrow> intVal | None \<Rightarrow> defaultValue)
      | None \<Rightarrow> defaultValue)"

definition getEnvDuration ::
  "(string \<Rightarrow> int option) \<Rightarrow> environ \<Rightarrow> string \<Rightarrow> int \<Rightarrow> int" where
  "getEnvDuration parseDuration env key defaultValue =
     (case env key of
        Some v \<Rightarrow> (case parseDuration v of Some d \<Rightarrow> d | None \<Rightarrow> defaultValue)
      | None \<Rightarrow> defaultValue)"

definition Load ::
  "(string \<Rightarrow> int option) \<Rightarrow> (string \<Rightarrow> int option) \<Rightarrow> environ \<Rightarrow> Config" where
  "Load atoi parseDuration env =
     \<lparr>ServiceName = getEnv env ''SERVICE_NAME'' ''platform-api'',
      Version = getEnv env ''SERVICE_VERSION'' ''1.0.0'',
      Environment = getEnv env ''ENVIRONMENT'' ''development'',
      Port = getEnvInt atoi env ''PORT'' 9090,
      ReadTimeout = getEnvDuration parseDuration env ''READ_TIMEOUT'' (5 * Second),
      WriteTimeout = getEnvDuration parseDuration env ''WRITE_TIMEOUT'' (10 * Second),
      IdleTimeout = getEnvDuration parseDuration env ''IDLE_TIMEOUT'' (120 * Second),
      ShutdownTimeout = getEnvDuration parseDuration env ''SHUTDOWN_TIMEOUT'' (30 * Second),
      LogLevel = getEnv env ''LOG_LEVEL'' ''info''\<rparr>"

subsection \<open>The two parsers of the standard library\<close>

text \<open>
  \<^verbatim>\<open>strconv.Atoi\<close>: an optional sign, then one or more decimal digits, the value
  within the 64-bit \<^verbatim>\<open>int\<close>; anything else is an error.
\<close>

definition is_digit :: "char \<Rightarrow> bool" where
  "is_digit c = (48 \<le> (of_char c :: nat) \<and> (of_char c :: nat) \<le> 57)"

definition digit_val :: "char \<Rightarrow> nat" where
  "digit_val c = of_char c - 48"

definition split_sign :: "string \<Rightarrow> bool \<times> string" where
  "split_sign s =
     (case s of
        [] \<Rightarrow> (False, [])
      | c # rest \<Rightarrow>
          if c = CHR ''-'' then (True, rest)
          else if c = CHR ''+'' then (False, rest)
          else (False, s))"

definition Atoi :: "string \<Rightarrow> int option" where
  "Atoi s =
     (case split_sign s of (neg, ds) \<Rightarrow>
        if ds = [] \<or> \<not> list_all is_digit ds then None
        else
          let n = int (foldl (\<lambda>a c. 10 * a + digit_val c) 0 ds);
              v = (if neg then - n else n)
          in if - (2 ^ 63) \<le> v \<and> v < 2 ^ 63 then Some v else None)"

text \<open>
  \<^verbatim>\<open>time.ParseDuration\<close>: an optional sign, then either \<^verbatim>\<open>0\<close> alone or one or
  more groups, each a decimal number with an optional fraction followed by a unit. The
  library counts in \<^verbatim>\<open>uint64\<close> (written here with \<open>mod 2 ^ 64\<close>) and computes the
  value of a fraction in \<^verbatim>\<open>float64\<close>.
\<close>

definition unitMap :: "string \<rightharpoonup> nat" where
  "unitMap = map_of
     [(''ns'', 1),
      (''us'', 1000),
      ([CHR 0xC2, CHR 0xB5, CHR ''s''], 1000),
      ([CHR 0xCE, CHR 0xBC, CHR ''s''], 1000),
      (''ms'', 1000000),
      (''s'', 1000000000),
      (''m'', 60000000000),
      (''h'', 3600000000000)]"

fun leadingInt :: "string \<Rightarrow> nat \<Rightarrow> (nat \<times> string) option" where
  "leadingInt [] x = Some (x, [])"
| "leadingInt (c # s) x =
     (if \<not> is_digit c then Some (x, c # s)
      else if x > 2 ^ 63 div 10 then None
      else
        let x' = x * 10 + digit_val c
        in if x' > 2 ^ 63 then None else leadingInt s x')"

fun leadingFraction :: "string \<Rightarrow> nat \<Rightarrow> float64 \<Rightarrow> bool \<Rightarrow> nat \<times> float64 \<times> string" where
  "leadingFraction [] x scale overflow = (x, scale, [])"
| "leadingFraction (c # s) x scale overflow =
     (if \<not> is_digit c then (x, scale, c # s)
      else if overflow then leadingFraction s x scale True
      else if x > (2 ^ 63 - 1) div 10 then leadingFraction s x scale True
      else
        let y = x * 10 + digit_val c
        in if y > 2 ^ 63 then leadingFraction s x scale True
           else leadingFraction s y (times10 scale) False)"

definition unit_char :: "char \<Rightarrow> bool" where
  "unit_char c = (\<not> (c = CHR ''.'' \<or> is_digit c))"

text \<open>
  \<open>fraction_part\<close> is the optional \<^verbatim>\<open>(\.[0-9]*)?\<close> of a group, with \<open>post\<close>
  telling whether it held a digit. Then the loop \<^verbatim>\<open>for s != ""\<close>: a round that goes
  on has consumed a unit, so the rest is shorter.
\<close>

definition fraction_part :: "string \<Rightarrow> nat \<times> float64 \<times> string \<times> bool" where
  "fraction_part s =
     (case s of
        c # rest \<Rightarrow>
          if c = CHR ''.''
          then (case leadingFraction rest 0 (Finite 1 1) False of
                  (f, scale, s') \<Rightarrow> (f, scale, s', length rest \<noteq> length s'))
          else (0, Finite 1 1, s, False)
      | [] \<Rightarrow> (0, Finite 1 1, s, False))"

function parse_groups :: "string \<Rightarrow> nat \<Rightarrow> nat option" where
  "parse_groups [] d = Some d"
| "parse_groups (c # s) d =
     (if \<not> (c = CHR ''.'' \<or> is_digit c) then None
      else
        case leadingInt (c # s) 0 of
          None \<Rightarrow> None
        | Some (v, s1) \<Rightarrow>
            let pre = (length (c # s) \<noteq> length s1) in
            case fraction_part s1 of
              (f, scale, s2, post) \<Rightarrow>
                if \<not> pre \<and> \<not> post then None
                else
                  let u = takeWhile unit_char s2;
                      s3 = dropWhile unit_char s2
                  in if u = [] then None
                     else
                       case unitMap u of
                         None \<Rightarrow> None
                       | Some unit \<Rightarrow>
                           if v > 2 ^ 63 div unit then None
                           else
                             let v1 = (v * unit) mod 2 ^ 64;
                                 v2 = (if f > 0
                                       then (v1 + truncate_uint64
                                               (times (float64_of_uint64 (of_nat f))
                                                  (divided_by unit scale))) mod 2 ^ 64
                                       else v1)
                             in if f > 0 \<and> v2 > 2 ^ 63 then None
                                else
                                  let d' = (d + v2) mod 2 ^ 64
                                  in if d' > 2 ^ 63 then None else parse_groups s3 d')"
  by pat_completeness auto
termination
proof (relation "measure (\<lambda>(s, d). length s)")
  show "wf (measure (\<lambda>(s, d). length s))"
    by simp
next
  fix c :: char and s :: string and d :: nat and x2 v s1 pre y f z scale w s2 post u s3
    and unit v1 v2 d'
  assume li: "leadingInt (c # s) 0 = Some x2" and x2: "(v, s1) = x2"
    and fp: "(f, z) = fraction_part s1" and z: "(scale, w) = z" and w: "(s2, post) = w"
    and u: "u = takeWhile unit_char s2" and s3: "s3 = dropWhile unit_char s2" and ne: "u \<noteq> []"
  have int_rest: "leadingInt t x = Some (n, t') \<Longrightarrow> length t' \<le> length t" for t x n t'
  proof (induction t arbitrary: x)
    case Nil
    then show ?case by simp
  next
    case (Cons a t)
    then show ?case
      by (auto simp add: Let_def split: if_splits) (metis le_SucI)
  qed
  have frac_rest: "length (snd (snd (leadingFraction t x sc ov))) \<le> length t" for t x sc ov
  proof (induction t arbitrary: x sc ov)
    case Nil
    then show ?case by simp
  next
    case (Cons a t)
    show ?case
      using Cons [of x sc True] Cons [of "x * 10 + digit_val a" "times10 sc" False]
      by (auto simp add: Let_def le_SucI)
  qed
  have a: "length s1 \<le> length (c # s)"
    using li x2 int_rest [of "c # s" 0 v s1] by simp
  have b: "length s2 \<le> length s1"
  proof (cases s1)
    case Nil
    then show ?thesis using fp z w by (simp add: fraction_part_def)
  next
    case (Cons e rest)
    show ?thesis
    proof (cases "e = CHR ''.''")
      case True
      obtain f' sc' s' where lf: "leadingFraction rest 0 (Finite 1 1) False = (f', sc', s')"
        by (cases "leadingFraction rest 0 (Finite 1 1) False") auto
      then have "s2 = s'"
        using fp z w Cons True by (simp add: fraction_part_def)
      moreover have "length s' \<le> length rest"
        using frac_rest [of rest 0 "Finite 1 1" False] lf by simp
      ultimately show ?thesis using Cons by simp
    next
      case False
      then show ?thesis using fp z w Cons by (simp add: fraction_part_def)
    qed
  qed
  have "s2 \<noteq> []"
    using u ne by auto
  then obtain e rest where s2: "s2 = e # rest"
    by (cases s2) auto
  with u ne have "unit_char e"
    by (auto split: if_splits)
  then have "s3 = dropWhile unit_char rest"
    using s3 s2 by simp
  then have "length s3 \<le> length rest"
    by (simp add: length_dropWhile_le)
  then have "length s3 < length s2"
    using s2 by simp
  with a b show "((s3, d'), c # s, d) \<in> measure (\<lambda>(s, d). length s)"
    by simp
qed

definition ParseDuration :: "string \<Rightarrow> int option" where
  "ParseDuration orig =
     (case split_sign orig of (neg, s) \<Rightarrow>
        if s = ''0'' then Some 0
        else if s = [] then None
        else
          case parse_groups s 0 of
            None \<Rightarrow> None
          | Some d \<Rightarrow>
              if neg then Some (- int d)
              else if d > 2 ^ 63 - 1 then None
              else Some (int d))"

section \<open>Package handlers\<close>

text \<open>
  What a handler reads from the clock and the Go runtime while it serves one request:
  \<open>Now_RFC3339\<close> is \<^verbatim>\<open>time.Now().UTC().Format(time.RFC3339)\<close>, \<open>Uptime t\<close> is
  \<^verbatim>\<open>time.Since(t).Round(time.Second).String()\<close>, the others are
  \<^verbatim>\<open>runtime.Version()\<close>, \<^verbatim>\<open>runtime.GOOS\<close>, \<^verbatim>\<open>runtime.GOARCH\<close>,
  \<^verbatim>\<open>runtime.NumGoroutine()\<close> and \<^verbatim>\<open>memStats.Alloc\<close>.
\<close>

record runtime =
  Now_RFC3339 :: string
  Uptime :: "int \<Rightarrow> string"
  GoVersion :: string
  GOOS :: string
  GOARCH :: string
  NumGoroutine :: int
  MemStats_Alloc :: "64 word"

text \<open>The logger is one per process and is left out of the two handler structs.\<close>

record HealthHandler =
  cfg :: Config
  ready :: bool
  startTime :: int

record APIHandler =
  cfg :: Config
  startTime :: int

definition NewHealthHandler :: "Config \<Rightarrow> int \<Rightarrow> HealthHandler" where
  "NewHealthHandler c now =
     (let h = \<lparr>HealthHandler.cfg = c, ready = False, HealthHandler.startTime = now\<rparr>
      in h\<lparr>ready := True\<rparr>)"

definition SetNotReady :: "HealthHandler \<Rightarrow> HealthHandler \<times> log_record list" where
  "SetNotReady h =
     (h\<lparr>ready := False\<rparr>, [Entry InfoLevel ''service marked as not ready'' []])"

definition Liveness :: "HealthHandler \<Rightarrow> runtime \<Rightarrow> handler" where
  "Liveness h rt r =
     (let resp = JObject
            [(''status'', JString ''alive''),
             (''timestamp'', JString (Now_RFC3339 rt))]
      in ([HeaderSet ''Content-Type'' ''application/json'',
           WriteHeader 200,
           Write (JsonLine resp)], Returned))"

definition boolToStatus :: "bool \<Rightarrow> string" where
  "boolToStatus b = (if b then ''pass'' else ''fail'')"

definition Readiness :: "HealthHandler \<Rightarrow> runtime \<Rightarrow> handler" where
  "Readiness h rt r =
     (let isReady = ready h;
          status = (if \<not> isReady then ''not_ready'' else ''ready'');
          httpStatus = (if \<not> isReady then 503 else 200);
          resp = JObject
            [(''status'', JString status),
             (''uptime'', JString (Uptime rt (HealthHandler.startTime h))),
             (''timestamp'', JString (Now_RFC3339 rt)),
             (''checks'', JArray
                [JObject [(''name'', JString ''server''),
                          (''status'', JString (boolToStatus isReady))]])]
      in ([HeaderSet ''Content-Type'' ''application/json'',
           WriteHeader httpStatus,
           Write (JsonLine resp)], Returned))"

definition NewAPIHandler :: "Config \<Rightarrow> int \<Rightarrow> APIHandler" where
  "NewAPIHandler c now = \<lparr>APIHandler.cfg = c, APIHandler.startTime = now\<rparr>"

definition Info :: "APIHandler \<Rightarrow> runtime \<Rightarrow> handler" where
  "Info a rt r =
     (let resp = JObject
            [(''service'', JString (ServiceName (APIHandler.cfg a))),
             (''version'', JString (Version (APIHandler.cfg a))),
             (''environment'', JString (Environment (APIHandler.cfg a))),
             (''go_version'', JString (GoVersion rt)),
             (''os'', JString (GOOS rt)),
             (''arch'', JString (GOARCH rt))]
      in ([HeaderSet ''Content-Type'' ''application/json'',
           WriteHeader 200,
           Write (JsonLine resp)], Returned))"

text \<open>The operations a health handler offers, and a run of them in any order.\<close>

datatype health_op =
    OpSetNotReady
  | OpLiveness runtime request
  | OpReadiness runtime request

fun health_step :: "HealthHandler \<Rightarrow> health_op \<Rightarrow> HealthHandler" where
  "health_step h OpSetNotReady = fst (SetNotReady h)"
| "health_step h (OpLiveness rt r) = h"
| "health_step h (OpReadiness rt r) = h"

subsection \<open>formatBytes\<close>

text \<open>
  \<^verbatim>\<open>float64(b)\<close> is a natural number again (see \<open>float64_of_uint64\<close>). Dividing
  by \<^verbatim>\<open>float64(mb)\<close>, a power of two, is exact.
  \<^verbatim>\<open>strconv.FormatFloat(x, 'f', 2, 64)\<close> prints the exact value of \<open>x\<close> rounded to
  two decimals, ties to even. So the whole computation is one on integers.
\<close>

definition digit_char :: "nat \<Rightarrow> char" where
  "digit_char d = ''0123456789'' ! (d mod 10)"

fun show_nat :: "nat \<Rightarrow> string" where
  "show_nat n =
     (if n < 10 then [digit_char n] else show_nat (n div 10) @ [digit_char (n mod 10)])"

declare show_nat.simps [simp del]

definition hundredths :: "nat \<Rightarrow> nat \<Rightarrow> nat" where
  "hundredths num den = round_half_even (100 * num) den"

definition FormatFloat_f2 :: "nat \<Rightarrow> nat \<Rightarrow> string" where
  "FormatFloat_f2 num den =
     (let n = hundredths num den
      in show_nat (n div 100) @ ''.'' @ [digit_char (n div 10), digit_char n])"

definition mb :: nat where
  "mb = 1024 * 1024"

definition formatBytes :: "64 word \<Rightarrow> string" where
  "formatBytes b = FormatFloat_f2 (float64_of_uint64 b) mb"

definition Status :: "APIHandler \<Rightarrow> runtime \<Rightarrow> handler" where
  "Status a rt r =
     (let MemoryAlloc = formatBytes (MemStats_Alloc rt);
          resp = JObject
            [(''status'', JString ''operational''),
             (''uptime'', JString (Uptime rt (APIHandler.startTime a))),
             (''goroutines'', JNumber (NumGoroutine rt)),
             (''memory_alloc_mb'', JString MemoryAlloc),
             (''timestamp'', JString (Now_RFC3339 rt))]
      in ([Log (Entry DebugLevel ''status check''
                 [(''goroutines'', FInt (NumGoroutine rt)),
                  (''memory'', FString MemoryAlloc)]),
           HeaderSet ''Content-Type'' ''application/json'',
           WriteHeader 200,
           Write (JsonLine resp)], Returned))"

subsection \<open>Reading a response\<close>

fun json_field :: "string \<Rightarrow> json \<Rightarrow> json option" where
  "json_field k (JObject kvs) = map_of kvs k"
| "json_field k _ = None"

text \<open>The member \<open>k\<close> of the object a client decodes from the body.\<close>

definition body_field :: "string \<Rightarrow> response \<Rightarrow> json option" where
  "body_field k w =
     (case body w of [JsonLine j] \<Rightarrow> json_field k j | _ \<Rightarrow> None)"

section \<open>The shutdown sequence of \<^verbatim>\<open>main\<close>\<close>

datatype signal = SIGINT | SIGTERM

definition signal_String :: "signal \<Rightarrow> string" where
  "signal_String s = (case s of SIGINT \<Rightarrow> ''interrupt'' | SIGTERM \<Rightarrow> ''terminated'')"

text \<open>
  \<^verbatim>\<open>context.WithTimeout(parent, d)\<close> is done \<open>d\<close> nanoseconds after it was made, or
  when its parent is; \<^verbatim>\<open>context.Background()\<close> is never done. \<open>done_before ctx t\<close>:
  the context is done before \<open>t\<close> nanoseconds have passed.
\<close>

datatype deadline = Background | WithTimeout deadline int

fun done_before :: "deadline \<Rightarrow> int \<Rightarrow> bool" where
  "done_before Background t = False"
| "done_before (WithTimeout parent d) t = (d < t \<or> done_before parent t)"

text \<open>
  \<^verbatim>\<open>server.Shutdown(ctx)\<close> closes the listeners (\<open>lnerr\<close> is what closing them
  returned) and then waits until every connection is idle or \<open>ctx\<close> is done, whichever
  comes first. \<open>busy\<close> is for how many nanoseconds connections stay in use; when none
  is in use at the first look, the context is not consulted. The time \<^verbatim>\<open>main\<close>
  spends between making the context and calling the shutdown is neglected.
\<close>

definition server_Shutdown :: "deadline \<Rightarrow> int \<Rightarrow> string option \<Rightarrow> string option" where
  "server_Shutdown ctx busy lnerr =
     (if busy \<le> 0 then lnerr
      else if done_before ctx busy then Some ''context deadline exceeded''
      else lnerr)"

datatype event =
    Logged log_record
  | NewContext deadline
  | SetNotReadyCall
  | ServerShutdown deadline
  | Cancel
  | LoggerSync
  | Exit int

text \<open>
  The statements of \<^verbatim>\<open>main\<close> after \<^verbatim>\<open>sig := <-quit\<close>, in program order, then
  the deferred \<^verbatim>\<open>cancel()\<close> and \<^verbatim>\<open>logger.Sync()\<close> and the return of
  \<^verbatim>\<open>main\<close>, which ends the process with status 0.
\<close>

definition forced_record :: "string \<Rightarrow> log_record" where
  "forced_record e = Entry ErrorLevel ''forced shutdown'' [(''error'', FError e)]"

definition graceful_shutdown ::
  "Config \<Rightarrow> HealthHandler \<Rightarrow> signal \<Rightarrow> int \<Rightarrow> string option \<Rightarrow>
   HealthHandler \<times> event list" where
  "graceful_shutdown c healthHandler sig busy lnerr =
     (let ctx = WithTimeout Background (ShutdownTimeout c)
      in case SetNotReady healthHandler of (h', ls) \<Rightarrow>
        (h',
         [Logged (Entry InfoLevel ''received shutdown signal''
                    [(''signal'', FString (signal_String sig))]),
          NewContext ctx,
          SetNotReadyCall] @
         map Logged ls @
         [Logged (Entry InfoLevel ''draining connections''
                    [(''timeout'', FDuration (ShutdownTimeout c))]),
          ServerShutdown ctx] @
         (case server_Shutdown ctx busy lnerr of
            Some e \<Rightarrow> [Logged (forced_record e)]
          | None \<Rightarrow> []) @
         [Logged (Entry InfoLevel ''server stopped gracefully'' []),
          Cancel, LoggerSync, Exit 0]))"

text \<open>
  \<open>sigs\<close> are the interrupt and termination signals delivered to the process, in
  order. \<^verbatim>\<open>main\<close> receives from the channel once: without a signal it waits for ever
  (\<open>None\<close>), and signals after the first are never read.
\<close>

definition wait_and_shutdown ::
  "Config \<Rightarrow> HealthHandler \<Rightarrow> signal list \<Rightarrow> int \<Rightarrow> string option \<Rightarrow>
   (HealthHandler \<times> event list) option" where
  "wait_and_shutdown c healthHandler sigs busy lnerr =
     (case sigs of
        [] \<Rightarrow> None
      | sig # _ \<Rightarrow> Some (graceful_shutdown c healthHandler sig busy lnerr))"

definition exit_code :: "event list \<Rightarrow> int option" where
  "exit_code es = (case last es of Exit n \<Rightarrow> Some n | _ \<Rightarrow> None)"

section \<open>Fixtures of the test suite\<close>

text \<open>
  \<^verbatim>\<open>testConfig()\<close> of \<^verbatim>\<open>handlers_test.go\<close> (the fields it leaves out are
  zero), the configuration loaded from an empty environment, a request as \<^verbatim>\<open>httptest.NewRequest(method, target, nil)\<close> builds it, and
  one reading of the clock and the runtime.
\<close>

definition testConfig :: Config where
  "testConfig =
     \<lparr>ServiceName = ''test-api'', Version = ''0.0.1'', Environment = ''test'',
      Port = 0, ReadTimeout = 0, WriteTimeout = 0, IdleTimeout = 0,
      ShutdownTimeout = 0, LogLevel = []\<rparr>"

definition default_config :: Config where
  "default_config = Load Atoi ParseDuration Map.empty"

definition httptest_NewRequest :: "string \<Rightarrow> string \<Rightarrow> request" where
  "httptest_NewRequest m target =
     \<lparr>Method = m, Path = target, Header = Map.empty, Context = Map.empty,
      RemoteAddr = ''192.0.2.1:1234''\<rparr>"

definition sample_runtime :: runtime where
  "sample_runtime =
     \<lparr>Now_RFC3339 = ''2026-01-01T00:00:00Z'', Uptime = (\<lambda>t. ''0s''),
      GoVersion = ''go1.26'', GOOS = ''linux'', GOARCH = ''amd64'',
      NumGoroutine = 1, MemStats_Alloc = 1048576\<rparr>"

text \<open>
  A handler that sends status 200 and some bytes and then panics, one that panics after
  a log line and a header but before it sends anything, and two readings of the random
  source.
\<close>

definition partial_then_panic :: handler where
  "partial_then_panic r =
     ([WriteHeader 200, Write (Text ''partial'')], Panicked (PanicWith ''boom''))"

definition panic_before_reply :: handler where
  "panic_before_reply r =
     ([Log (Entry DebugLevel ''status check'' []),
       HeaderSet ''Content-Type'' ''application/json''],
      Panicked (PanicWith ''boom''))"

lift_definition sample_random :: UUID is
  "[0, 1, 2, 3, 4, 5, 6, 7, 8, 9, 10, 11, 12, 13, 14, 15]"
  by simp

lift_definition other_random :: UUID is
  "[255, 255, 255, 255, 255, 255, 255, 255, 255, 255, 255, 255, 255, 255, 255, 255]"
  by simp

section \<open>Properties\<close>

subsection \<open>Memory sizes\<close>

lemma bitlen_le_iff: "bitlen n \<le> k \<longleftrightarrow> n < 2 ^ k"
proof (induction k arbitrary: n)
  case 0
  show ?case by (subst bitlen.simps) simp
next
  case (Suc k)
  have "bitlen n \<le> Suc k \<longleftrightarrow> n = 0 \<or> bitlen (n div 2) \<le> k"
    by (subst bitlen.simps) simp
  also have "\<dots> \<longleftrightarrow> n = 0 \<or> n div 2 < 2 ^ k"
    by (simp add: Suc.IH)
  also have "\<dots> \<longleftrightarrow> n < 2 ^ Suc k"
    by auto
  finally show ?case .
qed

lemma float64_exact: "unat b < 2 ^ 53 \<Longrightarrow> float64_of_uint64 b = unat b"
  by (simp add: float64_of_uint64_def bitlen_le_iff)

lemma show_nat_digit: "n < 10 \<Longrightarrow> show_nat n = [digit_char n]"
  by (subst show_nat.simps) simp

lemma round_half_even_near:
  assumes "0 < den"
  shows "2 * \<bar>int num - int (round_half_even num den) * int den\<bar> \<le> int den"
proof -
  define q where "q = num div den"
  define r where "r = num mod den"
  have n: "num = q * den + r" and r: "r < den"
    using assms by (simp_all add: q_def r_def)
  show ?thesis
  proof (cases "2 * r > den \<or> (2 * r = den \<and> odd q)")
    case True
    then have "round_half_even num den = q + 1"
      by (simp add: round_half_even_def q_def r_def Let_def)
    moreover have "int num - int (q + 1) * int den = int r - int den"
      using n by (simp add: algebra_simps)
    ultimately show ?thesis using True r by auto
  next
    case False
    then have "round_half_even num den = q"
      by (simp add: round_half_even_def q_def r_def Let_def)
    moreover have "int num - int q * int den = int r"
      using n by (simp add: algebra_simps)
    ultimately show ?thesis using False by auto
  qed
qed

text \<open>
  Claim C9. \<open>formatBytes\<close> renders exactly 1048576 bytes as \<open>1.00\<close> and 0 bytes as
  \<open>0.00\<close>. In general the text is an integer part, a point and two decimal digits,
  and the number of hundredths shown is the one nearest to the bytes (as a
  \<^verbatim>\<open>float64\<close>) divided by 1048576.
\<close>

theorem formatBytes_two_decimals:
  "formatBytes 1048576 = ''1.00'' \<and> formatBytes 0 = ''0.00'' \<and>
   (\<exists>n. formatBytes b = show_nat (n div 100) @ ''.'' @ [digit_char (n div 10), digit_char n] \<and>
        2 * \<bar>100 * int (float64_of_uint64 b) - int n * 1048576\<bar> \<le> 1048576)"
proof -
  have one: "formatBytes 1048576 = ''1.00''"
    by (simp add: formatBytes_def float64_exact FormatFloat_f2_def hundredths_def
        round_half_even_def mb_def show_nat_digit digit_char_def)
  have zero: "formatBytes 0 = ''0.00''"
    by (simp add: formatBytes_def float64_exact FormatFloat_f2_def hundredths_def
        round_half_even_def mb_def show_nat_digit digit_char_def)
  define n where "n = hundredths (float64_of_uint64 b) mb"
  have shape: "formatBytes b = show_nat (n div 100) @ ''.'' @ [digit_char (n div 10), digit_char n]"
    by (simp add: formatBytes_def FormatFloat_f2_def n_def Let_def)
  have "2 * \<bar>int (100 * float64_of_uint64 b) - int n * int mb\<bar> \<le> int mb"
    unfolding n_def hundredths_def by (rule round_half_even_near) (simp add: mb_def)
  then have near: "2 * \<bar>100 * int (float64_of_uint64 b) - int n * 1048576\<bar> \<le> 1048576"
    by (simp add: mb_def)
  from one zero shape near show ?thesis by blast
qed

subsection \<open>Probes and metadata\<close>

lemma json_reply:
  "finishRequest (foldl apply_call new_response
      [HeaderSet ''Content-Type'' ''application/json'', WriteHeader code, Write (JsonLine j)]) =
   \<lparr>header = [''Content-Type'' \<mapsto> [''application/json'']], wroteHeader = True, status = code,
    sentHeader = [''Content-Type'' \<mapsto> [''application/json'']], body = [JsonLine j]\<rparr>"
  by (simp add: finishRequest_def new_response_def writeHeader_def)

lemma Liveness_served:
  "resp (serve (Liveness h rt) r) =
   \<lparr>header = [''Content-Type'' \<mapsto> [''application/json'']], wroteHeader = True, status = 200,
    sentHeader = [''Content-Type'' \<mapsto> [''application/json'']],
    body = [JsonLine (JObject [(''status'', JString ''alive''),
                               (''timestamp'', JString (Now_RFC3339 rt))])]\<rparr>"
  by (simp add: serve_def Liveness_def json_reply del: foldl.simps)

lemma Readiness_served:
  "resp (serve (Readiness h rt) r) =
   \<lparr>header = [''Content-Type'' \<mapsto> [''application/json'']], wroteHeader = True,
    status = (if ready h then 200 else 503),
    sentHeader = [''Content-Type'' \<mapsto> [''application/json'']],
    body = [JsonLine (JObject
      [(''status'', JString (if ready h then ''ready'' else ''not_ready'')),
       (''uptime'', JString (Uptime rt (HealthHandler.startTime h))),
       (''timestamp'', JString (Now_RFC3339 rt)),
       (''checks'', JArray [JObject [(''name'', JString ''server''),
                                     (''status'', JString (boolToStatus (ready h)))]])])]\<rparr>"
  by (simp add: serve_def Readiness_def json_reply del: foldl.simps)

lemma Info_served:
  "resp (serve (Info a rt) r) =
   \<lparr>header = [''Content-Type'' \<mapsto> [''application/json'']], wroteHeader = True, status = 200,
    sentHeader = [''Content-Type'' \<mapsto> [''application/json'']],
    body = [JsonLine (JObject
      [(''service'', JString (ServiceName (APIHandler.cfg a))),
       (''version'', JString (Version (APIHandler.cfg a))),
       (''environment'', JString (Environment (APIHandler.cfg a))),
       (''go_version'', JString (GoVersion rt)),
       (''os'', JString (GOOS rt)),
       (''arch'', JString (GOARCH rt))])]\<rparr>"
  by (simp add: serve_def Info_def json_reply del: foldl.simps)

lemma not_ready_stays: "\<not> ready h \<Longrightarrow> \<not> ready (foldl health_step h ops)"
proof (induction ops arbitrary: h)
  case Nil
  then show ?case by simp
next
  case (Cons op ops)
  have "\<not> ready (health_step h op)"
    using Cons.prems by (cases op) (simp_all add: SetNotReady_def)
  then show ?case using Cons.IH by simp
qed

text \<open>
  Claim C6. The liveness handler answers every call with status 200 and a JSON body
  whose \<open>status\<close> member is \<open>alive\<close>; it returns normally, and its behaviour is the
  same whatever the readiness flag holds, since it never reads it.
\<close>

theorem Liveness_always_alive:
  "status (resp (serve (Liveness h rt) r)) = 200 \<and>
   body_field ''status'' (resp (serve (Liveness h rt) r)) = Some (JString ''alive'') \<and>
   outcome (serve (Liveness h rt) r) = Returned \<and>
   Liveness (h\<lparr>ready := b\<rparr>) rt r = Liveness h rt r"
  by (simp add: Liveness_served body_field_def) (simp add: serve_def Liveness_def)

text \<open>
  Claim C2. A new health handler is ready. While the flag is true the readiness
  handler answers 200 with \<open>status\<close> \<open>ready\<close>; after \<open>SetNotReady\<close> it answers 503
  with \<open>status\<close> \<open>not_ready\<close>. No run of the handler's operations turns a false flag
  true again, so after \<open>SetNotReady\<close> the answer stays 503.
\<close>

theorem readiness_irreversible:
  "ready (NewHealthHandler c now) \<and>
   (ready h \<longrightarrow>
      status (resp (serve (Readiness h rt) r)) = 200 \<and>
      body_field ''status'' (resp (serve (Readiness h rt) r)) = Some (JString ''ready'')) \<and>
   status (resp (serve (Readiness (fst (SetNotReady h)) rt) r)) = 503 \<and>
   body_field ''status'' (resp (serve (Readiness (fst (SetNotReady h)) rt) r)) =
     Some (JString ''not_ready'') \<and>
   (\<not> ready h \<longrightarrow> \<not> ready (foldl health_step h ops)) \<and>
   \<not> ready (foldl health_step (fst (SetNotReady h)) ops) \<and>
   status (resp (serve (Readiness (foldl health_step (fst (SetNotReady h)) ops) rt) r)) = 503"
proof -
  have a: "ready (NewHealthHandler c now)"
    by (simp add: NewHealthHandler_def)
  have b: "\<not> ready (fst (SetNotReady h))"
    by (simp add: SetNotReady_def)
  have c: "\<not> ready (foldl health_step (fst (SetNotReady h)) ops)"
    using b by (rule not_ready_stays)
  show ?thesis
    using a b c not_ready_stays [of h ops]
    by (simp add: Readiness_served body_field_def)
qed

theorem readiness_irreversible_witness:
  "ready (NewHealthHandler testConfig 0) \<and>
   status (resp (serve (Readiness (NewHealthHandler testConfig 0) sample_runtime)
                  (httptest_NewRequest ''GET'' ''/readyz''))) = 200 \<and>
   status (resp (serve (Readiness (fst (SetNotReady (NewHealthHandler testConfig 0))) sample_runtime)
                  (httptest_NewRequest ''GET'' ''/readyz''))) = 503 \<and>
   \<not> ready (foldl health_step (fst (SetNotReady (NewHealthHandler testConfig 0)))
              [OpReadiness sample_runtime (httptest_NewRequest ''GET'' ''/readyz''),
               OpLiveness sample_runtime (httptest_NewRequest ''GET'' ''/healthz''),
               OpSetNotReady])"
  using readiness_irreversible [of testConfig 0 "NewHealthHandler testConfig 0" sample_runtime
      "httptest_NewRequest ''GET'' ''/readyz''"
      "[OpReadiness sample_runtime (httptest_NewRequest ''GET'' ''/readyz''),
        OpLiveness sample_runtime (httptest_NewRequest ''GET'' ''/healthz''),
        OpSetNotReady]"]
  by (simp add: NewHealthHandler_def)

text \<open>
  Claim C8. The info handler answers 200, and the \<open>service\<close>, \<open>version\<close> and
  \<open>environment\<close> members of its body are those of the configuration: two calls on
  handlers holding the same configuration agree on them, whatever the request and the
  runtime readings. With service name \<open>test-api\<close> and version \<open>0.0.1\<close> the members
  are \<open>test-api\<close> and \<open>0.0.1\<close>.
\<close>

theorem Info_stable:
  assumes "APIHandler.cfg a' = APIHandler.cfg a"
  shows "status (resp (serve (Info a rt) r)) = 200 \<and>
    body_field ''service'' (resp (serve (Info a rt) r)) =
      Some (JString (ServiceName (APIHandler.cfg a))) \<and>
    body_field ''version'' (resp (serve (Info a rt) r)) =
      Some (JString (Version (APIHandler.cfg a))) \<and>
    body_field ''environment'' (resp (serve (Info a rt) r)) =
      Some (JString (Environment (APIHandler.cfg a))) \<and>
    body_field ''service'' (resp (serve (Info a' rt') r')) =
      body_field ''service'' (resp (serve (Info a rt) r)) \<and>
    body_field ''version'' (resp (serve (Info a' rt') r')) =
      body_field ''version'' (resp (serve (Info a rt) r)) \<and>
    body_field ''environment'' (resp (serve (Info a' rt') r')) =
      body_field ''environment'' (resp (serve (Info a rt) r)) \<and>
    (ServiceName (APIHandler.cfg a) = ''test-api'' \<and> Version (APIHandler.cfg a) = ''0.0.1'' \<longrightarrow>
       body_field ''service'' (resp (serve (Info a rt) r)) = Some (JString ''test-api'') \<and>
       body_field ''version'' (resp (serve (Info a rt) r)) = Some (JString ''0.0.1''))"
  using assms by (simp add: Info_served body_field_def)

theorem Info_stable_witness:
  "status (resp (serve (Info (NewAPIHandler testConfig 0) sample_runtime)
                  (httptest_NewRequest ''GET'' ''/api/v1/info''))) = 200 \<and>
   body_field ''service'' (resp (serve (Info (NewAPIHandler testConfig 0) sample_runtime)
                  (httptest_NewRequest ''GET'' ''/api/v1/info''))) = Some (JString ''test-api'') \<and>
   body_field ''version'' (resp (serve (Info (NewAPIHandler testConfig 0) sample_runtime)
                  (httptest_NewRequest ''GET'' ''/api/v1/info''))) = Some (JString ''0.0.1'') \<and>
   body_field ''environment'' (resp (serve (Info (NewAPIHandler testConfig 7) sample_runtime)
                  (httptest_NewRequest ''GET'' ''/''))) =
   body_field ''environment'' (resp (serve (Info (NewAPIHandler testConfig 0) sample_runtime)
                  (httptest_NewRequest ''GET'' ''/api/v1/info'')))"
  using Info_stable [of "NewAPIHandler testConfig 7" "NewAPIHandler testConfig 0" sample_runtime
      "httptest_NewRequest ''GET'' ''/api/v1/info''" sample_runtime "httptest_NewRequest ''GET'' ''/''"]
  by (simp add: NewAPIHandler_def testConfig_def)

subsection \<open>Running a trace\<close>

lemma logged_append: "logged (xs @ ys) = logged xs @ logged ys"
  by (induction xs rule: logged.induct) simp_all

lemma sent_kept_step:
  assumes "header w k = Some v" "wroteHeader w \<longrightarrow> sentHeader w k = Some v" "\<not> sets_header k c"
  shows "header (apply_call w c) k = Some v \<and>
         (wroteHeader (apply_call w c) \<longrightarrow> sentHeader (apply_call w c) k = Some v)"
  using assms by (cases c) (auto simp add: writeHeader_def Let_def)

lemma sent_kept:
  assumes "header w k = Some v" "wroteHeader w \<longrightarrow> sentHeader w k = Some v"
    "\<forall>c\<in>set cs. \<not> sets_header k c"
  shows "header (foldl apply_call w cs) k = Some v \<and>
         (wroteHeader (foldl apply_call w cs) \<longrightarrow> sentHeader (foldl apply_call w cs) k = Some v)"
  using assms
proof (induction cs arbitrary: w)
  case Nil
  then show ?case by simp
next
  case (Cons c cs)
  have "header (apply_call w c) k = Some v \<and>
        (wroteHeader (apply_call w c) \<longrightarrow> sentHeader (apply_call w c) k = Some v)"
    using Cons.prems by (intro sent_kept_step) simp_all
  then show ?case using Cons.IH [of "apply_call w c"] Cons.prems by simp
qed

lemma finish_sent:
  assumes "header w k = Some v" "wroteHeader w \<longrightarrow> sentHeader w k = Some v"
  shows "sentHeader (finishRequest w) k = Some v \<and> header (finishRequest w) k = Some v"
  using assms by (simp add: finishRequest_def writeHeader_def)

lemma unsent_step:
  "\<not> sends c \<Longrightarrow> wroteHeader (apply_call w c) = wroteHeader w \<and>
     status (apply_call w c) = status w \<and> body (apply_call w c) = body w \<and>
     sentHeader (apply_call w c) = sentHeader w"
  by (cases c) simp_all

lemma unsent:
  "\<forall>c\<in>set cs. \<not> sends c \<Longrightarrow>
   wroteHeader (foldl apply_call w cs) = wroteHeader w \<and>
   status (foldl apply_call w cs) = status w \<and> body (foldl apply_call w cs) = body w \<and>
   sentHeader (foldl apply_call w cs) = sentHeader w"
proof (induction cs arbitrary: w)
  case Nil
  then show ?case by simp
next
  case (Cons c cs)
  then show ?case using unsent_step [of c w] by simp
qed

lemma serve_eq:
  "h r = (cs, ex) \<Longrightarrow>
   serve h r =
     \<lparr>resp = (case ex of
                Returned \<Rightarrow> finishRequest (foldl apply_call new_response cs)
              | Panicked x \<Rightarrow> foldl apply_call new_response cs),
      log = logged cs, outcome = ex\<rparr>"
  by (simp add: serve_def Let_def)

lemma serve_prepend_header:
  assumes "\<forall>c\<in>set (fst b). \<not> sets_header k c"
  shows "header (foldl apply_call new_response (HeaderSet k v # fst b)) k = Some [v] \<and>
    (wroteHeader (foldl apply_call new_response (HeaderSet k v # fst b)) \<longrightarrow>
       sentHeader (foldl apply_call new_response (HeaderSet k v # fst b)) k = Some [v])"
proof -
  have "header (apply_call new_response (HeaderSet k v)) k = Some [v]"
    and "\<not> wroteHeader (apply_call new_response (HeaderSet k v))"
    by (simp_all add: new_response_def)
  then show ?thesis
    using sent_kept [of "apply_call new_response (HeaderSet k v)" k "[v]" "fst b"] assms
    by simp
qed

subsection \<open>Correlation ids\<close>

lemma hex_digit_inj: "a < 16 \<Longrightarrow> b < 16 \<Longrightarrow> hex_digit a = hex_digit b \<Longrightarrow> a = b"
  by (simp add: hex_digit_def nth_eq_iff_index_eq)

lemma hex_byte_inj: "hex_byte a = hex_byte b \<Longrightarrow> a = b"
proof -
  assume h: "hex_byte a = hex_byte b"
  have la: "unat a < 256" and lb: "unat b < 256"
    using unsigned_less [of a, where ?'a = nat] unsigned_less [of b, where ?'a = nat] by simp_all
  then have "unat a div 16 < 16" "unat b div 16 < 16"
    by simp_all
  then have d: "unat a div 16 = unat b div 16"
    using h by (simp add: hex_byte_def hex_digit_inj)
  have "unat a mod 16 = unat b mod 16"
    using h by (simp add: hex_byte_def hex_digit_inj)
  with d have "unat a = unat b"
    by (metis div_mult_mod_eq)
  then show "a = b"
    by (simp add: word_unat_eq_iff)
qed

lemma length_encodeHex: "length (encodeHex bs) = 2 * length bs"
  by (induction bs) (simp_all add: encodeHex_def hex_byte_def)

lemma encodeHex_inj:
  "length xs = length ys \<Longrightarrow> encodeHex xs = encodeHex ys \<Longrightarrow> xs = ys"
proof (induction xs ys rule: list_induct2)
  case Nil
  then show ?case by simp
next
  case (Cons x xs y ys)
  from Cons.prems have "hex_byte x @ encodeHex xs = hex_byte y @ encodeHex ys"
    by (simp add: encodeHex_def)
  then have "hex_byte x = hex_byte y \<and> encodeHex xs = encodeHex ys"
    by (simp add: hex_byte_def)
  then show ?case using Cons.IH hex_byte_inj by simp
qed

lemma mask_or_bit_back:
  "k \<le> n \<Longrightarrow> ((x AND mask k) OR push_bit n 1) AND mask k = x AND (mask k :: 8 word)"
  by (rule bit_eqI) (auto simp add: bit_simps)

lemma mask_or_bit_high:
  "k \<le> n \<Longrightarrow> n < 8 \<Longrightarrow>
   drop_bit k ((x AND mask k) OR push_bit n 1) = (push_bit (n - k) 1 :: 8 word)"
  by (rule bit_eqI) (auto simp add: bit_simps)

lemma low_nibble_back: "((x AND 0x0f) OR 0x40) AND 0x0f = x AND (0x0f :: 8 word)"
  using mask_or_bit_back [of 4 6 x] by (simp add: mask_eq_exp_minus_1)

lemma low_six_back: "((x AND 0x3f) OR 0x80) AND 0x3f = x AND (0x3f :: 8 word)"
  using mask_or_bit_back [of 6 7 x] by (simp add: mask_eq_exp_minus_1)

lemma keep_low_nibble:
  "((x AND 0x0f) OR 0x40 = (y AND 0x0f) OR 0x40) = (x AND 0x0f = y AND (0x0f :: 8 word))"
  by (metis low_nibble_back)

lemma keep_low_six:
  "((x AND 0x3f) OR 0x80 = (y AND 0x3f) OR 0x80) = (x AND 0x3f = y AND (0x3f :: 8 word))"
  by (metis low_six_back)

lemma version_nibble: "unat (((x AND 0x0f) OR 0x40) :: 8 word) div 16 = 4"
proof -
  have "unat (((x AND 0x0f) OR 0x40) :: 8 word) div 16 =
      unat (drop_bit 4 (((x AND 0x0f) OR 0x40) :: 8 word))"
    by (simp add: drop_bit_eq_div unat_div)
  also have "\<dots> = 4"
    using mask_or_bit_high [of 4 6 x] by (simp add: mask_eq_exp_minus_1)
  finally show ?thesis .
qed

lemma variant_bits: "unat (((x AND 0x3f) OR 0x80) :: 8 word) div 64 = 2"
proof -
  have "unat (((x AND 0x3f) OR 0x80) :: 8 word) div 64 =
      unat (drop_bit 6 (((x AND 0x3f) OR 0x80) :: 8 word))"
    by (simp add: drop_bit_eq_div unat_div)
  also have "\<dots> = 2"
    using mask_or_bit_high [of 6 7 x] by (simp add: mask_eq_exp_minus_1)
  finally show ?thesis .
qed

lemma length_Rep_UUID: "length (Rep_UUID u) = 16"
  using Rep_UUID [of u] by simp

lemma length_uuid_String: "length (uuid_String u) = 36"
  by (simp add: uuid_String_def Let_def length_encodeHex length_Rep_UUID)

lemma hex_digit_in: "hex_digit n \<in> set ''0123456789abcdef''"
  unfolding hex_digit_def by (rule nth_mem) simp

lemma set_encodeHex: "set (encodeHex bs) \<subseteq> set ''0123456789abcdef''"
proof (induction bs)
  case Nil
  then show ?case by (simp add: encodeHex_def)
next
  case (Cons b bs)
  have "set (hex_byte b) \<subseteq> set ''0123456789abcdef''"
    using hex_digit_in [of "unat b div 16"] hex_digit_in [of "unat b mod 16"]
    by (simp add: hex_byte_def)
  with Cons show ?case
    by (simp add: encodeHex_def)
qed

lemma uuid_String_chars:
  "set (uuid_String u) \<subseteq> insert CHR ''-'' (set ''0123456789abcdef'')"
proof -
  have h: "set (encodeHex bs) \<subseteq> insert CHR ''-'' (set ''0123456789abcdef'')" for bs
    by (rule subset_insertI2) (rule set_encodeHex)
  have d: "set ''-'' \<subseteq> insert CHR ''-'' (set ''0123456789abcdef'')"
    by (simp only: list.set insert_subset insertI1 empty_subsetI simp_thms)
  show ?thesis
    unfolding uuid_String_def Let_def set_append Un_subset_iff
    by (intro conjI h d)
qed

lemma uuid_String_dashes:
  "uuid_String u ! 8 = CHR ''-'' \<and> uuid_String u ! 13 = CHR ''-'' \<and>
   uuid_String u ! 18 = CHR ''-'' \<and> uuid_String u ! 23 = CHR ''-''"
  by (simp add: uuid_String_def Let_def nth_append length_encodeHex length_Rep_UUID)

lemma encodeHex_first:
  "i < length bs \<Longrightarrow> encodeHex (take n (drop i bs)) ! 0 = hex_digit (unat (bs ! i) div 16) \<or> n = 0"
  by (cases n) (simp_all add: encodeHex_def hex_byte_def Cons_nth_drop_Suc [symmetric])

lemma uuid_String_14: "uuid_String u ! 14 = hex_digit (unat (Rep_UUID u ! 6) div 16)"
  using encodeHex_first [of 6 "Rep_UUID u" 2]
  by (simp add: uuid_String_def Let_def nth_append length_encodeHex length_Rep_UUID)

lemma uuid_String_19: "uuid_String u ! 19 = hex_digit (unat (Rep_UUID u ! 8) div 16)"
  using encodeHex_first [of 8 "Rep_UUID u" 2]
  by (simp add: uuid_String_def Let_def nth_append length_encodeHex length_Rep_UUID)

lemma uuid_New_version: "uuid_String (uuid_New rnd) ! 14 = CHR ''4''"
  by (simp add: uuid_String_14 uuid_New.rep_eq length_Rep_UUID version_nibble hex_digit_def)

lemma uuid_New_variant: "uuid_String (uuid_New rnd) ! 19 \<in> set ''89ab''"
proof -
  let ?y = "(Rep_UUID rnd ! 8 AND 0x3f) OR 0x80"
  have "unat ?y div 64 = 2"
    by (rule variant_bits)
  then have "unat ?y div 16 \<in> {8, 9, 10, 11}"
    by auto
  then have "hex_digit (unat ?y div 16) \<in> set ''89ab''"
    by (auto simp add: hex_digit_def)
  then show ?thesis
    by (simp add: uuid_String_19 uuid_New.rep_eq length_Rep_UUID)
qed

lemma uuid_String_inj: "uuid_String u = uuid_String v \<Longrightarrow> u = v"
proof -
  assume eq: "uuid_String u = uuid_String v"
  let ?a = "Rep_UUID u" and ?b = "Rep_UUID v"
  have la: "length ?a = 16" and lb: "length ?b = 16"
    by (rule length_Rep_UUID)+
  from eq have
    p1: "encodeHex (take 4 ?a) = encodeHex (take 4 ?b)" and
    p2: "encodeHex (take 2 (drop 4 ?a)) = encodeHex (take 2 (drop 4 ?b))" and
    p3: "encodeHex (take 2 (drop 6 ?a)) = encodeHex (take 2 (drop 6 ?b))" and
    p4: "encodeHex (take 2 (drop 8 ?a)) = encodeHex (take 2 (drop 8 ?b))" and
    p5: "encodeHex (take 6 (drop 10 ?a)) = encodeHex (take 6 (drop 10 ?b))"
    by (simp_all add: uuid_String_def Let_def length_encodeHex la lb)
  have q1: "take 4 ?a = take 4 ?b"
    using p1 by (intro encodeHex_inj) (simp_all add: la lb)
  have q2: "take 2 (drop 4 ?a) = take 2 (drop 4 ?b)"
    using p2 by (intro encodeHex_inj) (simp_all add: la lb)
  have q3: "take 2 (drop 6 ?a) = take 2 (drop 6 ?b)"
    using p3 by (intro encodeHex_inj) (simp_all add: la lb)
  have q4: "take 2 (drop 8 ?a) = take 2 (drop 8 ?b)"
    using p4 by (intro encodeHex_inj) (simp_all add: la lb)
  have q5: "take 6 (drop 10 ?a) = take 6 (drop 10 ?b)"
    using p5 by (intro encodeHex_inj) (simp_all add: la lb)
  have split: "xs = take 4 xs @ take 2 (drop 4 xs) @ take 2 (drop 6 xs) @ take 2 (drop 8 xs) @
      take 6 (drop 10 xs)" if "length xs = 16" for xs :: "8 word list"
  proof -
    have "take 4 xs @ take 2 (drop 4 xs) @ take 2 (drop 6 xs) @ take 2 (drop 8 xs) @
        take 6 (drop 10 xs) = take (4 + (2 + (2 + (2 + 6)))) xs"
      by (simp only: take_add drop_drop) (simp add: add.commute)
    then show ?thesis using that by simp
  qed
  have "?a = ?b"
    using split [OF la] split [OF lb] q1 q2 q3 q4 q5 by metis
  then show "u = v"
    by (simp add: Rep_UUID_inject)
qed

lemma uuid_New_eq_iff: "uuid_New r = uuid_New r' \<longleftrightarrow> random_bits r = random_bits r'"
proof -
  let ?a = "Rep_UUID r" and ?b = "Rep_UUID r'"
  have la: "length ?a = 16" and lb: "length ?b = 16"
    by (rule length_Rep_UUID)+
  have "uuid_New r = uuid_New r' \<longleftrightarrow> Rep_UUID (uuid_New r) = Rep_UUID (uuid_New r')"
    by (simp add: Rep_UUID_inject)
  also have "\<dots> \<longleftrightarrow> random_bits r = random_bits r'"
    by (simp add: uuid_New.rep_eq random_bits_def Let_def list_eq_iff_nth_eq la lb
        nth_list_update keep_low_nibble keep_low_six)
  finally show ?thesis .
qed

lemma fresh_id_iff:
  "uuid_String (uuid_New r) = uuid_String (uuid_New r') \<longleftrightarrow> random_bits r = random_bits r'"
  using uuid_String_inj [of "uuid_New r" "uuid_New r'"] uuid_New_eq_iff [of r r'] by auto

lemma uuid_String_nonempty: "uuid_String u \<noteq> []"
  using length_uuid_String [of u] by auto

lemma request_id_nonempty: "request_id rnd r \<noteq> []"
  by (simp add: request_id_def Let_def uuid_String_nonempty)

lemma GetRequestID_with_request_id: "GetRequestID (Context (with_request_id rid r)) = rid"
  by (simp add: GetRequestID_def with_request_id_def)

text \<open>
  Claim C10. For a context that carries no correlation id (nothing stored under the
  key, or a value that is not a string) \<open>GetRequestID\<close> is the text \<open>unknown\<close>, and
  that is the \<open>request_id\<close> of the records \<open>Logging\<close> and \<open>Recovery\<close> write for
  such a request. A request that went through \<open>RequestID\<close> carries a non-empty id, so
  the field is never empty.
\<close>

theorem GetRequestID_unknown:
  assumes "\<forall>rid. Context r requestIDKey \<noteq> Some (StringValue rid)"
  shows "GetRequestID (Context r) = ''unknown'' \<and>
    map_of (log_record.fields (completed_record r wrapped d)) ''request_id'' = Some (FString ''unknown'') \<and>
    map_of (log_record.fields (panic_record r rec stack)) ''request_id'' = Some (FString ''unknown'') \<and>
    (snd (next r) = Returned \<longrightarrow>
       (\<exists>e. Logging d next r = (fst (next r) @ [Log e], Returned) \<and>
            map_of (log_record.fields e) ''request_id'' = Some (FString ''unknown''))) \<and>
    GetRequestID (Context (with_request_id (request_id rnd r) r)) \<noteq> []"
proof -
  have u: "GetRequestID (Context r) = ''unknown''"
  proof (cases "Context r requestIDKey")
    case None
    then show ?thesis by (simp add: GetRequestID_def)
  next
    case (Some v)
    with assms have "v = OtherValue" by (cases v) auto
    with Some show ?thesis by (simp add: GetRequestID_def)
  qed
  have l: "snd (next r) = Returned \<Longrightarrow>
      Logging d next r =
        (fst (next r) @ [Log (completed_record r (foldl rw_call newResponseWriter (fst (next r))) d)],
         Returned)"
    by (cases "next r") (simp add: Logging_def)
  show ?thesis
    using u l
    by (auto simp add: completed_record_def panic_record_def GetRequestID_with_request_id
        request_id_nonempty)
qed

theorem GetRequestID_unknown_witness:
  "GetRequestID (Context (httptest_NewRequest ''GET'' ''/healthz'')) = ''unknown'' \<and>
   Logging 5 (Liveness (NewHealthHandler testConfig 0) sample_runtime)
       (httptest_NewRequest ''GET'' ''/healthz'') =
     (fst (Liveness (NewHealthHandler testConfig 0) sample_runtime
            (httptest_NewRequest ''GET'' ''/healthz'')) @
      [Log (Entry InfoLevel ''request completed''
        [(''request_id'', FString ''unknown''),
         (''method'', FString ''GET''),
         (''path'', FString ''/healthz''),
         (''status'', FInt 200),
         (''duration'', FDuration 5),
         (''remote_addr'', FString ''192.0.2.1:1234''),
         (''user_agent'', FString [])])], Returned)"
  using GetRequestID_unknown [of "httptest_NewRequest ''GET'' ''/healthz''"]
  by (simp add: httptest_NewRequest_def Logging_def Liveness_def completed_record_def
      newResponseWriter_def UserAgent_def Header_Get_def)

lemma sample_uuid:
  "uuid_String (uuid_New sample_random) = ''00010203-0405-4607-8809-0a0b0c0d0e0f''"
  by (simp add: uuid_String_def uuid_New.rep_eq sample_random.rep_eq encodeHex_def hex_byte_def
      hex_digit_def Let_def)

lemma other_uuid:
  "uuid_String (uuid_New other_random) = ''ffffffff-ffff-4fff-bfff-ffffffffffff''"
  by (simp add: uuid_String_def uuid_New.rep_eq other_random.rep_eq encodeHex_def hex_byte_def
      hex_digit_def Let_def)

text \<open>
  Claim C3. \<open>RequestID\<close> takes the value of the request's \<open>X-Request-ID\<close> header
  when it is not empty and the text of a newly generated identifier otherwise. It stores
  that value under the response header \<open>X-Request-ID\<close> and hands the next handler the
  request with the value in its context, where \<open>GetRequestID\<close> finds it. Unless the
  next handler itself rewrites the header, the response carries the value. A generated
  identifier is never empty: it is 36 characters of lower-case hexadecimal with dashes
  at positions 8, 13, 18 and 23, the version digit 4 and a variant digit among 8, 9, a
  and b. It is fresh in that it is made from the reading of the random source and from
  nothing else: two requests without the header get the same identifier exactly when
  the two readings agree on the 122 bits that \<^verbatim>\<open>uuid.New()\<close> keeps.
\<close>

theorem RequestID_sets_id:
  "RequestID rnd next r =
      prepend [HeaderSet ''X-Request-ID'' (request_id rnd r)]
        (next (with_request_id (request_id rnd r) r)) \<and>
    GetRequestID (Context (with_request_id (request_id rnd r) r)) = request_id rnd r \<and>
    ((\<forall>c\<in>set (fst (next (with_request_id (request_id rnd r) r))).
        \<not> sets_header ''X-Request-ID'' c) \<longrightarrow>
       header (resp (serve (RequestID rnd next) r)) ''X-Request-ID'' = Some [request_id rnd r] \<and>
       (outcome (serve (RequestID rnd next) r) = Returned \<longrightarrow>
          sentHeader (resp (serve (RequestID rnd next) r)) ''X-Request-ID'' =
            Some [request_id rnd r])) \<and>
    (Header_Get (Header r) ''X-Request-ID'' \<noteq> [] \<longrightarrow>
       request_id rnd r = Header_Get (Header r) ''X-Request-ID'') \<and>
    (Header_Get (Header r) ''X-Request-ID'' = [] \<longrightarrow>
       request_id rnd r = uuid_String (uuid_New rnd) \<and> request_id rnd r \<noteq> [] \<and>
       length (request_id rnd r) = 36 \<and>
       set (request_id rnd r) \<subseteq> insert CHR ''-'' (set ''0123456789abcdef'') \<and>
       request_id rnd r ! 8 = CHR ''-'' \<and> request_id rnd r ! 13 = CHR ''-'' \<and>
       request_id rnd r ! 18 = CHR ''-'' \<and> request_id rnd r ! 23 = CHR ''-'' \<and>
       request_id rnd r ! 14 = CHR ''4'' \<and> request_id rnd r ! 19 \<in> set ''89ab'') \<and>
    (Header_Get (Header r) ''X-Request-ID'' = [] \<and> Header_Get (Header r') ''X-Request-ID'' = [] \<longrightarrow>
       (request_id rnd r = request_id rnd' r') = (random_bits rnd = random_bits rnd'))"
proof -
  let ?rid = "request_id rnd r"
  let ?b = "next (with_request_id ?rid r)"
  obtain cs ex where b: "?b = (cs, ex)"
    by (cases ?b)
  let ?w = "foldl apply_call new_response (HeaderSet ''X-Request-ID'' ?rid # cs)"
  have eq: "RequestID rnd next r = prepend [HeaderSet ''X-Request-ID'' ?rid] ?b"
    by (simp add: RequestID_def Let_def)
  have sv: "serve (RequestID rnd next) r =
      \<lparr>resp = (case ex of Returned \<Rightarrow> finishRequest ?w | Panicked x \<Rightarrow> ?w),
       log = logged cs, outcome = ex\<rparr>"
    using serve_eq [of "RequestID rnd next" r "HeaderSet ''X-Request-ID'' ?rid # cs" ex]
    by (simp add: eq prepend_def b del: foldl.simps)
  have hs: "header (resp (serve (RequestID rnd next) r)) ''X-Request-ID'' = Some [?rid] \<and>
      (outcome (serve (RequestID rnd next) r) = Returned \<longrightarrow>
         sentHeader (resp (serve (RequestID rnd next) r)) ''X-Request-ID'' = Some [?rid])"
    if q: "\<forall>c\<in>set (fst ?b). \<not> sets_header ''X-Request-ID'' c"
  proof -
    have "\<forall>c\<in>set (fst (cs, ex)). \<not> sets_header ''X-Request-ID'' c"
      using q b by simp
    then have inv: "header ?w ''X-Request-ID'' = Some [?rid] \<and>
        (wroteHeader ?w \<longrightarrow> sentHeader ?w ''X-Request-ID'' = Some [?rid])"
      using serve_prepend_header [of "(cs, ex)" "''X-Request-ID''" ?rid] by simp
    show ?thesis
      using inv finish_sent [of ?w "''X-Request-ID''" "[?rid]"]
      by (cases ex) (simp_all add: sv del: foldl.simps)
  qed
  have g: "GetRequestID (Context (with_request_id ?rid r)) = ?rid"
    by (rule GetRequestID_with_request_id)
  have v: "Header_Get (Header r) ''X-Request-ID'' \<noteq> [] \<Longrightarrow>
      ?rid = Header_Get (Header r) ''X-Request-ID''"
    by (simp add: request_id_def)
  have f: "Header_Get (Header r) ''X-Request-ID'' = [] \<Longrightarrow> ?rid = uuid_String (uuid_New rnd)"
    by (simp add: request_id_def)
  have shape: "length ?rid = 36 \<and>
      set ?rid \<subseteq> insert CHR ''-'' (set ''0123456789abcdef'') \<and>
      ?rid ! 8 = CHR ''-'' \<and> ?rid ! 13 = CHR ''-'' \<and> ?rid ! 18 = CHR ''-'' \<and>
      ?rid ! 23 = CHR ''-'' \<and> ?rid ! 14 = CHR ''4'' \<and> ?rid ! 19 \<in> set ''89ab''"
    if "Header_Get (Header r) ''X-Request-ID'' = []"
    unfolding f [OF that]
    using length_uuid_String [of "uuid_New rnd"] uuid_String_chars [of "uuid_New rnd"]
      uuid_String_dashes [of "uuid_New rnd"] uuid_New_version [of rnd] uuid_New_variant [of rnd]
    by blast
  have fresh: "(?rid = request_id rnd' r') = (random_bits rnd = random_bits rnd')"
    if "Header_Get (Header r) ''X-Request-ID'' = []" "Header_Get (Header r') ''X-Request-ID'' = []"
    using that fresh_id_iff [of rnd rnd'] by (simp add: request_id_def)
  show ?thesis
    using eq g hs v f shape fresh request_id_nonempty [of rnd r] by blast
qed

theorem RequestID_sets_id_witness:
  "sentHeader (resp (serve (RequestID sample_random (Liveness (NewHealthHandler testConfig 0) sample_runtime))
      ((httptest_NewRequest ''GET'' ''/healthz'')\<lparr>Header := [''X-Request-ID'' \<mapsto> [''abc-123'']]\<rparr>)))
      ''X-Request-ID'' = Some [''abc-123''] \<and>
   sentHeader (resp (serve (RequestID sample_random (Liveness (NewHealthHandler testConfig 0) sample_runtime))
      (httptest_NewRequest ''GET'' ''/healthz''))) ''X-Request-ID'' =
      Some [''00010203-0405-4607-8809-0a0b0c0d0e0f''] \<and>
   sentHeader (resp (serve (RequestID other_random (Liveness (NewHealthHandler testConfig 0) sample_runtime))
      (httptest_NewRequest ''GET'' ''/healthz''))) ''X-Request-ID'' =
      Some [''ffffffff-ffff-4fff-bfff-ffffffffffff''] \<and>
   random_bits sample_random \<noteq> random_bits other_random"
proof -
  let ?next = "Liveness (NewHealthHandler testConfig 0) sample_runtime"
  let ?r1 = "(httptest_NewRequest ''GET'' ''/healthz'')\<lparr>Header := [''X-Request-ID'' \<mapsto> [''abc-123'']]\<rparr>"
  let ?r2 = "httptest_NewRequest ''GET'' ''/healthz''"
  have quiet: "\<forall>c\<in>set (fst (?next r)). \<not> sets_header ''X-Request-ID'' c" for r
    by (simp add: Liveness_def)
  have ret: "outcome (serve (RequestID rnd ?next) r) = Returned" for rnd r
    by (simp add: serve_def RequestID_def prepend_def Liveness_def Let_def)
  have none: "Header_Get (Header ?r2) ''X-Request-ID'' = []"
    by (simp add: Header_Get_def httptest_NewRequest_def)
  have id1: "request_id sample_random ?r1 = ''abc-123''"
    by (simp add: request_id_def Header_Get_def httptest_NewRequest_def)
  have id2: "request_id sample_random ?r2 = ''00010203-0405-4607-8809-0a0b0c0d0e0f''"
    by (simp add: request_id_def none sample_uuid)
  have id3: "request_id other_random ?r2 = ''ffffffff-ffff-4fff-bfff-ffffffffffff''"
    by (simp add: request_id_def none other_uuid)
  have differ: "request_id sample_random ?r2 \<noteq> request_id other_random ?r2"
    by (simp add: id2 id3)
  show ?thesis
    using RequestID_sets_id [of sample_random ?next ?r1 ?r2 other_random]
      RequestID_sets_id [of sample_random ?next ?r2 ?r2 other_random]
      RequestID_sets_id [of other_random ?next ?r2 ?r2 sample_random]
      quiet ret none id1 id2 id3 differ
    by simp
qed

subsection \<open>Configuration\<close>

text \<open>
  Claim C7. When the environment holds a value for a key and the value does not parse
  (as an integer for \<open>PORT\<close>, as a duration for the four timeouts), the loader takes
  the default of that setting: 9090 for the port, 5, 10, 120 and 30 seconds for the
  read, write, idle and shutdown timeouts. Loading itself has no failing path.
\<close>

theorem Load_malformed_defaults:
  assumes "env key = Some v"
  shows "(atoi v = None \<longrightarrow> getEnvInt atoi env key d = d) \<and>
    (parseDuration v = None \<longrightarrow> getEnvDuration parseDuration env key d = d) \<and>
    (key = ''PORT'' \<and> atoi v = None \<longrightarrow> Port (Load atoi parseDuration env) = 9090) \<and>
    (key = ''READ_TIMEOUT'' \<and> parseDuration v = None \<longrightarrow>
       ReadTimeout (Load atoi parseDuration env) = 5 * Second) \<and>
    (key = ''WRITE_TIMEOUT'' \<and> parseDuration v = None \<longrightarrow>
       WriteTimeout (Load atoi parseDuration env) = 10 * Second) \<and>
    (key = ''IDLE_TIMEOUT'' \<and> parseDuration v = None \<longrightarrow>
       IdleTimeout (Load atoi parseDuration env) = 120 * Second) \<and>
    (key = ''SHUTDOWN_TIMEOUT'' \<and> parseDuration v = None \<longrightarrow>
       ShutdownTimeout (Load atoi parseDuration env) = 30 * Second)"
  using assms by (auto simp add: Load_def getEnvInt_def getEnvDuration_def)

lemma Atoi_80a: "Atoi ''80a'' = None"
  by (simp add: Atoi_def split_sign_def is_digit_def)

lemma ParseDuration_30: "ParseDuration ''30'' = None"
  by (simp add: ParseDuration_def split_sign_def is_digit_def digit_val_def unit_char_def
      fraction_part_def)

theorem Load_malformed_defaults_witness:
  "Port (Load Atoi ParseDuration [''PORT'' \<mapsto> ''80a'', ''SHUTDOWN_TIMEOUT'' \<mapsto> ''30'']) = 9090 \<and>
   ShutdownTimeout (Load Atoi ParseDuration [''PORT'' \<mapsto> ''80a'', ''SHUTDOWN_TIMEOUT'' \<mapsto> ''30''])
     = 30000000000"
  using Load_malformed_defaults [where env = "[''PORT'' \<mapsto> ''80a'', ''SHUTDOWN_TIMEOUT'' \<mapsto> ''30'']"
      and key = "''PORT''" and v = "''80a''" and atoi = Atoi and parseDuration = ParseDuration]
    Load_malformed_defaults [where env = "[''PORT'' \<mapsto> ''80a'', ''SHUTDOWN_TIMEOUT'' \<mapsto> ''30'']"
      and key = "''SHUTDOWN_TIMEOUT''" and v = "''30''" and atoi = Atoi
      and parseDuration = ParseDuration]
  by (simp add: Atoi_80a ParseDuration_30 Second_def)

subsection \<open>Pre-flight requests\<close>

lemma cors_headers_set:
  "header (foldl apply_call w cors_headers) ''Access-Control-Allow-Origin'' = Some [''*''] \<and>
   header (foldl apply_call w cors_headers) ''Access-Control-Allow-Methods'' =
     Some [''GET, POST, OPTIONS''] \<and>
   header (foldl apply_call w cors_headers) ''Access-Control-Allow-Headers'' =
     Some [''Content-Type, X-Request-ID'']"
  by (simp add: cors_headers_def)

text \<open>
  Claim C5. On a request whose method is \<open>OPTIONS\<close> the CORS middleware sets its
  three headers, writes status 204 and returns: the body stays empty, and the behaviour
  is the same whatever the wrapped handler is, which is therefore not called. On any
  other method it sets the three headers and then behaves as the wrapped handler does on
  the very same request.
\<close>

theorem CORS_preflight:
  "(Method r = ''OPTIONS'' \<longrightarrow>
      CORS next r = (cors_headers @ [WriteHeader 204], Returned) \<and>
      CORS next r = CORS next' r \<and>
      outcome (serve (CORS next) r) = Returned \<and>
      status (resp (serve (CORS next) r)) = 204 \<and>
      body (resp (serve (CORS next) r)) = [] \<and>
      sentHeader (resp (serve (CORS next) r)) ''Access-Control-Allow-Origin'' = Some [''*''] \<and>
      sentHeader (resp (serve (CORS next) r)) ''Access-Control-Allow-Methods'' =
        Some [''GET, POST, OPTIONS''] \<and>
      sentHeader (resp (serve (CORS next) r)) ''Access-Control-Allow-Headers'' =
        Some [''Content-Type, X-Request-ID'']) \<and>
   (Method r \<noteq> ''OPTIONS'' \<longrightarrow>
      CORS next r = prepend cors_headers (next r) \<and>
      header (foldl apply_call w cors_headers) ''Access-Control-Allow-Origin'' = Some [''*''] \<and>
      header (foldl apply_call w cors_headers) ''Access-Control-Allow-Methods'' =
        Some [''GET, POST, OPTIONS''] \<and>
      header (foldl apply_call w cors_headers) ''Access-Control-Allow-Headers'' =
        Some [''Content-Type, X-Request-ID''])"
proof -
  have opt: "Method r = ''OPTIONS'' \<Longrightarrow> CORS nx r = (cors_headers @ [WriteHeader 204], Returned)" for nx
    by (simp add: CORS_def prepend_def)
  have srv: "Method r = ''OPTIONS'' \<Longrightarrow>
      resp (serve (CORS next) r) =
        \<lparr>header = [''Access-Control-Allow-Origin'' \<mapsto> [''*''],
                   ''Access-Control-Allow-Methods'' \<mapsto> [''GET, POST, OPTIONS''],
                   ''Access-Control-Allow-Headers'' \<mapsto> [''Content-Type, X-Request-ID'']],
         wroteHeader = True, status = 204,
         sentHeader = [''Access-Control-Allow-Origin'' \<mapsto> [''*''],
                   ''Access-Control-Allow-Methods'' \<mapsto> [''GET, POST, OPTIONS''],
                   ''Access-Control-Allow-Headers'' \<mapsto> [''Content-Type, X-Request-ID'']],
         body = []\<rparr>"
    using serve_eq [of "CORS next" r "cors_headers @ [WriteHeader 204]" Returned] opt [of "next"]
    by (simp add: cors_headers_def new_response_def finishRequest_def writeHeader_def)
  have out: "Method r = ''OPTIONS'' \<Longrightarrow> outcome (serve (CORS next) r) = Returned"
    using serve_eq [of "CORS next" r "cors_headers @ [WriteHeader 204]" Returned] opt [of "next"]
    by simp
  have fwd: "Method r \<noteq> ''OPTIONS'' \<Longrightarrow> CORS next r = prepend cors_headers (next r)"
    by (simp add: CORS_def)
  show ?thesis
    using opt [of "next"] opt [of next'] srv out fwd cors_headers_set [of w]
    by simp
qed

theorem CORS_preflight_witness:
  "status (resp (serve (CORS partial_then_panic) (httptest_NewRequest ''OPTIONS'' ''/api/v1/info''))) = 204 \<and>
   body (resp (serve (CORS partial_then_panic) (httptest_NewRequest ''OPTIONS'' ''/api/v1/info''))) = [] \<and>
   outcome (serve (CORS partial_then_panic) (httptest_NewRequest ''OPTIONS'' ''/api/v1/info'')) = Returned \<and>
   CORS (Info (NewAPIHandler testConfig 0) sample_runtime) (httptest_NewRequest ''GET'' ''/api/v1/info'') =
     prepend cors_headers
       (Info (NewAPIHandler testConfig 0) sample_runtime (httptest_NewRequest ''GET'' ''/api/v1/info''))"
  using CORS_preflight [of "httptest_NewRequest ''OPTIONS'' ''/api/v1/info''" partial_then_panic]
    CORS_preflight [of "httptest_NewRequest ''GET'' ''/api/v1/info''"
      "Info (NewAPIHandler testConfig 0) sample_runtime"]
  by (simp add: httptest_NewRequest_def)

subsection \<open>The composed chain and a panic\<close>

lemma statusCode_after_error:
  "statusCode (foldl rw_call rw (cs @ Log e # http_Error m code)) = code"
  by (simp add: http_Error_def)

lemma Recovery_panicked:
  "next r = (cs, Panicked p) \<Longrightarrow>
   Recovery stack next r =
     (cs @ Log (panic_record r p stack) # http_Error internal_error_body 500, Returned)"
  by (simp add: Recovery_def)

lemma CORS_forward:
  "Method r \<noteq> ''OPTIONS'' \<Longrightarrow> mux r = (cs, ex) \<Longrightarrow> CORS mux r = (cors_headers @ cs, ex)"
  by (simp add: CORS_def prepend_def)

lemma Logging_returned:
  "next r = (cs, Returned) \<Longrightarrow>
   Logging d next r =
     (cs @ [Log (completed_record r (foldl rw_call newResponseWriter cs) d)], Returned)"
  by (simp add: Logging_def)

lemma completed_record_status:
  "statusCode rw = statusCode rw' \<Longrightarrow> completed_record r rw d = completed_record r rw' d"
  by (simp add: completed_record_def)

lemma chain_on_panic:
  assumes m: "Method r \<noteq> ''OPTIONS''"
    and p: "mux (with_request_id (request_id rnd r) r) = (cs, Panicked p)"
  shows "main_handler rnd d stack mux r =
    (HeaderSet ''X-Request-ID'' (request_id rnd r) #
       cors_headers @ cs @
       Log (panic_record (with_request_id (request_id rnd r) r) p stack) #
       http_Error internal_error_body 500 @
       [Log (completed_record (with_request_id (request_id rnd r) r) \<lparr>statusCode = 500\<rparr> d)],
     Returned)"
proof -
  let ?r = "with_request_id (request_id rnd r) r"
  have m': "Method ?r \<noteq> ''OPTIONS''"
    using m by (simp add: with_request_id_def)
  have c: "CORS mux ?r = (cors_headers @ cs, Panicked p)"
    using CORS_forward [of ?r mux cs "Panicked p"] m' p by simp
  have rc: "Recovery stack (CORS mux) ?r =
      ((cors_headers @ cs) @ Log (panic_record ?r p stack) # http_Error internal_error_body 500,
       Returned)"
    using Recovery_panicked [of "CORS mux" ?r "cors_headers @ cs" p stack] c by simp
  have st: "statusCode (foldl rw_call newResponseWriter
      ((cors_headers @ cs) @ Log (panic_record ?r p stack) # http_Error internal_error_body 500)) = 500"
    by (rule statusCode_after_error)
  have lg: "Logging d (Recovery stack (CORS mux)) ?r =
      (((cors_headers @ cs) @ Log (panic_record ?r p stack) # http_Error internal_error_body 500) @
        [Log (completed_record ?r \<lparr>statusCode = 500\<rparr> d)], Returned)"
    using Logging_returned [of "Recovery stack (CORS mux)" ?r
        "(cors_headers @ cs) @ Log (panic_record ?r p stack) # http_Error internal_error_body 500" d]
      completed_record_status [of "foldl rw_call newResponseWriter
        ((cors_headers @ cs) @ Log (panic_record ?r p stack) # http_Error internal_error_body 500)"
        "\<lparr>statusCode = 500\<rparr>" ?r d] rc st
    by (simp del: foldl_append foldl.simps append_assoc)
  show ?thesis
    by (simp add: main_handler_def RequestID_def Let_def prepend_def lg)
qed

lemma logged_http_Error: "logged (http_Error m code) = []"
  by (simp add: http_Error_def)

lemma logged_cors_headers: "logged cors_headers = []"
  by (simp add: cors_headers_def)

lemma error_reply:
  assumes "\<not> wroteHeader w" "body w = []"
  shows "status (foldl apply_call w (Log e # http_Error m code @ [Log e'])) = code \<and>
    body (foldl apply_call w (Log e # http_Error m code @ [Log e'])) = [Text (m @ [CHR 0x0A])] \<and>
    wroteHeader (foldl apply_call w (Log e # http_Error m code @ [Log e']))"
  using assms by (simp add: http_Error_def writeHeader_def)

lemma finish_after_header:
  "wroteHeader w \<Longrightarrow> finishRequest w = w"
  by (simp add: finishRequest_def writeHeader_def)

lemma cors_headers_quiet:
  "\<forall>c\<in>set cors_headers. \<not> sends c \<and> \<not> sets_header ''X-Request-ID'' c"
  by (simp add: cors_headers_def)

lemma http_Error_quiet:
  "\<forall>c\<in>set (http_Error m code). \<not> sets_header ''X-Request-ID'' c"
  by (simp add: http_Error_def)

lemma sample_request_id:
  "request_id sample_random (httptest_NewRequest m target) = ''00010203-0405-4607-8809-0a0b0c0d0e0f''"
  by (simp add: request_id_def Header_Get_def httptest_NewRequest_def sample_uuid)

text \<open>
  Claim C1, as the code has it. Take a request that reaches the router (its method is
  not \<open>OPTIONS\<close>) and a router that panics on it. The composed chain returns
  normally. To what the router logged it adds exactly two records: one at error level,
  carrying the correlation id of the request, then the request-completed record at info
  level. If the router had sent no part of the response, the caller receives status 500
  and the body \<^verbatim>\<open>{"error":"internal server error"}\<close> followed by a line feed. If the
  router left the response header \<open>X-Request-ID\<close> alone, that header carries the same
  correlation id. \<open>Recovery\<close> writes the error reply without looking at what was sent.
\<close>

theorem chain_recovers_panic:
  assumes "Method r \<noteq> ''OPTIONS''"
    and "mux (with_request_id (request_id rnd r) r) = (cs, Panicked p)"
  shows "outcome (serve (main_handler rnd d stack mux) r) = Returned \<and>
    log (serve (main_handler rnd d stack mux) r) =
      logged cs @
      [panic_record (with_request_id (request_id rnd r) r) p stack,
       completed_record (with_request_id (request_id rnd r) r) \<lparr>statusCode = 500\<rparr> d] \<and>
    lvl (panic_record (with_request_id (request_id rnd r) r) p stack) = ErrorLevel \<and>
    lvl (completed_record (with_request_id (request_id rnd r) r) \<lparr>statusCode = 500\<rparr> d) = InfoLevel \<and>
    map_of (log_record.fields (panic_record (with_request_id (request_id rnd r) r) p stack))
      ''request_id'' = Some (FString (request_id rnd r)) \<and>
    ((\<forall>c\<in>set cs. \<not> sends c) \<longrightarrow>
       status (resp (serve (main_handler rnd d stack mux) r)) = 500 \<and>
       body (resp (serve (main_handler rnd d stack mux) r)) =
         [Text (internal_error_body @ [CHR 0x0A])]) \<and>
    ((\<forall>c\<in>set cs. \<not> sets_header ''X-Request-ID'' c) \<longrightarrow>
       sentHeader (resp (serve (main_handler rnd d stack mux) r)) ''X-Request-ID'' =
         Some [request_id rnd r])"
proof -
  let ?rid = "request_id rnd r"
  let ?r = "with_request_id ?rid r"
  let ?pr = "panic_record ?r p stack"
  let ?cr = "completed_record ?r \<lparr>statusCode = 500\<rparr> d"
  let ?tail = "Log ?pr # http_Error internal_error_body 500 @ [Log ?cr]"
  let ?T = "HeaderSet ''X-Request-ID'' ?rid # cors_headers @ cs @ ?tail"
  let ?s = "serve (main_handler rnd d stack mux) r"
  have tr: "main_handler rnd d stack mux r = (?T, Returned)"
    using chain_on_panic [of r mux rnd cs p d stack] assms by simp
  have sv: "?s = \<lparr>resp = finishRequest (foldl apply_call new_response ?T),
                   log = logged ?T, outcome = Returned\<rparr>"
    using serve_eq [of "main_handler rnd d stack mux" r ?T Returned] tr by simp
  have out: "outcome ?s = Returned"
    by (simp add: sv)
  have lg: "log ?s = logged cs @ [?pr, ?cr]"
    by (simp add: sv logged_append logged_http_Error logged_cors_headers)
  have id: "map_of (log_record.fields ?pr) ''request_id'' = Some (FString ?rid)"
    by (simp add: panic_record_def GetRequestID_with_request_id)
  have st: "status (resp ?s) = 500 \<and> body (resp ?s) = [Text (internal_error_body @ [CHR 0x0A])]"
    if q: "\<forall>c\<in>set cs. \<not> sends c"
  proof -
    let ?w = "foldl apply_call new_response (HeaderSet ''X-Request-ID'' ?rid # cors_headers @ cs)"
    have "\<forall>c\<in>set (HeaderSet ''X-Request-ID'' ?rid # cors_headers @ cs). \<not> sends c"
      using q cors_headers_quiet by auto
    then have "wroteHeader ?w = wroteHeader new_response \<and> status ?w = status new_response \<and>
        body ?w = body new_response \<and> sentHeader ?w = sentHeader new_response"
      by (rule unsent)
    then have w: "\<not> wroteHeader ?w" "body ?w = []"
      by (simp_all add: new_response_def)
    have split: "foldl apply_call new_response ?T = foldl apply_call ?w ?tail"
      by simp
    have e: "status (foldl apply_call ?w ?tail) = 500 \<and>
        body (foldl apply_call ?w ?tail) = [Text (internal_error_body @ [CHR 0x0A])] \<and>
        wroteHeader (foldl apply_call ?w ?tail)"
      using w by (rule error_reply)
    have "resp ?s = finishRequest (foldl apply_call ?w ?tail)"
      by (simp only: sv split served.simps)
    then show ?thesis
      using e finish_after_header [of "foldl apply_call ?w ?tail"] by simp
  qed
  have hd: "sentHeader (resp ?s) ''X-Request-ID'' = Some [?rid]"
    if q: "\<forall>c\<in>set cs. \<not> sets_header ''X-Request-ID'' c"
  proof -
    have "\<forall>c\<in>set (fst (cors_headers @ cs @ ?tail, Returned)). \<not> sets_header ''X-Request-ID'' c"
      using q cors_headers_quiet http_Error_quiet [of internal_error_body 500] by auto
    then have inv: "header (foldl apply_call new_response ?T) ''X-Request-ID'' = Some [?rid] \<and>
        (wroteHeader (foldl apply_call new_response ?T) \<longrightarrow>
           sentHeader (foldl apply_call new_response ?T) ''X-Request-ID'' = Some [?rid])"
      using serve_prepend_header [of "(cors_headers @ cs @ ?tail, Returned)" "''X-Request-ID''" ?rid]
      by simp
    have "resp ?s = finishRequest (foldl apply_call new_response ?T)"
      by (simp only: sv served.simps)
    then show ?thesis
      using finish_sent [of "foldl apply_call new_response ?T" "''X-Request-ID''" "[?rid]"] inv
      by simp
  qed
  have lv: "lvl ?pr = ErrorLevel" "lvl ?cr = InfoLevel"
    by (simp_all add: panic_record_def completed_record_def)
  show ?thesis
    using out lg id st hd lv by blast
qed

theorem chain_recovers_panic_witness:
  "outcome (serve (main_handler sample_random 5 ''goroutine 1 [running]'' panic_before_reply)
      (httptest_NewRequest ''GET'' ''/api/v1/status'')) = Returned \<and>
   status (resp (serve (main_handler sample_random 5 ''goroutine 1 [running]'' panic_before_reply)
      (httptest_NewRequest ''GET'' ''/api/v1/status''))) = 500 \<and>
   body (resp (serve (main_handler sample_random 5 ''goroutine 1 [running]'' panic_before_reply)
      (httptest_NewRequest ''GET'' ''/api/v1/status''))) = [Text (internal_error_body @ [CHR 0x0A])] \<and>
   sentHeader (resp (serve (main_handler sample_random 5 ''goroutine 1 [running]'' panic_before_reply)
      (httptest_NewRequest ''GET'' ''/api/v1/status''))) ''X-Request-ID'' =
     Some [''00010203-0405-4607-8809-0a0b0c0d0e0f''] \<and>
   map (\<lambda>e. (lvl e, map_of (log_record.fields e) ''request_id''))
     (log (serve (main_handler sample_random 5 ''goroutine 1 [running]'' panic_before_reply)
      (httptest_NewRequest ''GET'' ''/api/v1/status''))) =
     [(DebugLevel, None),
      (ErrorLevel, Some (FString ''00010203-0405-4607-8809-0a0b0c0d0e0f'')),
      (InfoLevel, Some (FString ''00010203-0405-4607-8809-0a0b0c0d0e0f''))]"
proof -
  let ?r = "httptest_NewRequest ''GET'' ''/api/v1/status''"
  let ?cs = "[Log (Entry DebugLevel ''status check'' []),
              HeaderSet ''Content-Type'' ''application/json'']"
  have m: "Method ?r \<noteq> ''OPTIONS''"
    by (simp add: httptest_NewRequest_def)
  have p: "panic_before_reply (with_request_id (request_id sample_random ?r) ?r) =
      (?cs, Panicked (PanicWith ''boom''))"
    by (simp add: panic_before_reply_def)
  show ?thesis
    using chain_recovers_panic [of ?r panic_before_reply sample_random ?cs "PanicWith ''boom''" 5
        "''goroutine 1 [running]''", OF m p]
    by (simp add: sample_request_id completed_record_def panic_record_def
        GetRequestID_with_request_id)
qed

text \<open>
  A router that sends status 200 and some bytes before it panics: the status stays 200
  and the error text is appended to the bytes already sent.
\<close>

theorem chain_panic_after_partial_response:
  "snd (partial_then_panic
      (with_request_id (request_id sample_random (httptest_NewRequest ''GET'' ''/api/v1/info''))
        (httptest_NewRequest ''GET'' ''/api/v1/info''))) = Panicked (PanicWith ''boom'') \<and>
   status (resp (serve (main_handler sample_random 5 ''goroutine 1 [running]'' partial_then_panic)
      (httptest_NewRequest ''GET'' ''/api/v1/info''))) = 200 \<and>
   body (resp (serve (main_handler sample_random 5 ''goroutine 1 [running]'' partial_then_panic)
      (httptest_NewRequest ''GET'' ''/api/v1/info''))) =
     [Text ''partial'', Text (internal_error_body @ [CHR 0x0A])]"
proof -
  let ?r = "httptest_NewRequest ''GET'' ''/api/v1/info''"
  let ?h = "main_handler sample_random 5 ''goroutine 1 [running]'' partial_then_panic"
  have m: "Method ?r \<noteq> ''OPTIONS''"
    by (simp add: httptest_NewRequest_def)
  have p: "partial_then_panic (with_request_id (request_id sample_random ?r) ?r) =
      ([WriteHeader 200, Write (Text ''partial'')], Panicked (PanicWith ''boom''))"
    by (simp add: partial_then_panic_def)
  note tr = chain_on_panic [of ?r partial_then_panic sample_random
      "[WriteHeader 200, Write (Text ''partial'')]" "PanicWith ''boom''" 5 "''goroutine 1 [running]''",
      OF m p]
  have "resp (serve ?h ?r) = finishRequest (foldl apply_call new_response (fst (?h ?r)))"
    using serve_eq [of ?h ?r "fst (?h ?r)" Returned] tr by simp
  then show ?thesis
    by (simp add: tr p cors_headers_def http_Error_def new_response_def writeHeader_def
        finishRequest_def)
qed

subsection \<open>Shutdown\<close>

lemma graceful_shutdown_events:
  "graceful_shutdown c h sig busy lnerr =
     (h\<lparr>ready := False\<rparr>,
      [Logged (Entry InfoLevel ''received shutdown signal''
                 [(''signal'', FString (signal_String sig))]),
       NewContext (WithTimeout Background (ShutdownTimeout c))] @
      SetNotReadyCall #
      [Logged (Entry InfoLevel ''service marked as not ready'' []),
       Logged (Entry InfoLevel ''draining connections''
                 [(''timeout'', FDuration (ShutdownTimeout c))])] @
      ServerShutdown (WithTimeout Background (ShutdownTimeout c)) #
      ((case server_Shutdown (WithTimeout Background (ShutdownTimeout c)) busy lnerr of
          Some e \<Rightarrow> [Logged (forced_record e)]
        | None \<Rightarrow> []) @
       [Logged (Entry InfoLevel ''server stopped gracefully'' []),
        Cancel, LoggerSync, Exit 0]))"
  by (simp add: graceful_shutdown_def SetNotReady_def Let_def)

text \<open>
  Claim C4. Whatever the configuration, the state of the health handler and the outcome
  of the drain, the first signal makes \<^verbatim>\<open>main\<close> run the shutdown to its end, with
  the events in this order: the context is made with the configured shutdown timeout,
  the readiness flag is turned off, and only then the server's shutdown is called, with
  that very context. Each of the two happens exactly once and the flag is off
  afterwards. The drain is bounded by the timeout: when connections stay busy beyond
  it, the shutdown returns the deadline error, which is logged as a forced shutdown and
  nothing more. The process ends with status 0 in every case, and signals after the
  first change nothing.
\<close>

theorem shutdown_sequence_order:
  "\<exists>h' pre mid post.
     wait_and_shutdown c h (sig # later) busy lnerr =
       Some (h', pre @ SetNotReadyCall # mid @
                 ServerShutdown (WithTimeout Background (ShutdownTimeout c)) # post) \<and>
     \<not> ready h' \<and>
     NewContext (WithTimeout Background (ShutdownTimeout c)) \<in> set pre \<and>
     SetNotReadyCall \<notin> set (pre @ mid @ post) \<and>
     (\<forall>ctx. ServerShutdown ctx \<notin> set (pre @ mid @ post)) \<and>
     post =
       (case server_Shutdown (WithTimeout Background (ShutdownTimeout c)) busy lnerr of
          Some e \<Rightarrow> [Logged (forced_record e)]
        | None \<Rightarrow> []) @
       [Logged (Entry InfoLevel ''server stopped gracefully'' []), Cancel, LoggerSync, Exit 0] \<and>
     server_Shutdown (WithTimeout Background (ShutdownTimeout c)) busy lnerr =
       (if 0 < busy \<and> ShutdownTimeout c < busy then Some ''context deadline exceeded''
        else lnerr) \<and>
     exit_code (pre @ SetNotReadyCall # mid @
                ServerShutdown (WithTimeout Background (ShutdownTimeout c)) # post) = Some 0 \<and>
     wait_and_shutdown c h [sig] busy lnerr = wait_and_shutdown c h (sig # later) busy lnerr"
proof -
  let ?ctx = "WithTimeout Background (ShutdownTimeout c)"
  let ?pre = "[Logged (Entry InfoLevel ''received shutdown signal''
                 [(''signal'', FString (signal_String sig))]),
               NewContext ?ctx]"
  let ?mid = "[Logged (Entry InfoLevel ''service marked as not ready'' []),
               Logged (Entry InfoLevel ''draining connections''
                 [(''timeout'', FDuration (ShutdownTimeout c))])]"
  let ?post = "(case server_Shutdown ?ctx busy lnerr of
          Some e \<Rightarrow> [Logged (forced_record e)]
        | None \<Rightarrow> []) @
       [Logged (Entry InfoLevel ''server stopped gracefully'' []), Cancel, LoggerSync, Exit 0]"
  have run: "wait_and_shutdown c h (sig # later) busy lnerr =
      Some (h\<lparr>ready := False\<rparr>, ?pre @ SetNotReadyCall # ?mid @ ServerShutdown ?ctx # ?post)"
    by (simp add: wait_and_shutdown_def graceful_shutdown_events)
  have off: "\<not> ready (h\<lparr>ready := False\<rparr>)"
    by simp
  have made: "NewContext ?ctx \<in> set ?pre"
    by simp
  have once: "SetNotReadyCall \<notin> set (?pre @ ?mid @ ?post)"
    by (cases "server_Shutdown ?ctx busy lnerr") simp_all
  have once': "\<forall>ctx. ServerShutdown ctx \<notin> set (?pre @ ?mid @ ?post)"
    by (cases "server_Shutdown ?ctx busy lnerr") simp_all
  have bound: "server_Shutdown ?ctx busy lnerr =
      (if 0 < busy \<and> ShutdownTimeout c < busy then Some ''context deadline exceeded'' else lnerr)"
    by (simp add: server_Shutdown_def)
  have ex: "exit_code (?pre @ SetNotReadyCall # ?mid @ ServerShutdown ?ctx # ?post) = Some 0"
    by (cases "server_Shutdown ?ctx busy lnerr") (simp_all add: exit_code_def)
  have same: "wait_and_shutdown c h [sig] busy lnerr = wait_and_shutdown c h (sig # later) busy lnerr"
    by (simp add: wait_and_shutdown_def)
  show ?thesis
    using run off made once once' bound ex same by blast
qed

lemma default_timeout: "ShutdownTimeout default_config = 30000000000"
  by (simp add: default_config_def Load_def getEnvDuration_def Second_def)

theorem shutdown_sequence_order_witness:
  "map_option snd
     (wait_and_shutdown default_config (NewHealthHandler default_config 0)
        [SIGTERM, SIGINT, SIGTERM] 45000000000 None) =
   Some
     [Logged (Entry InfoLevel ''received shutdown signal'' [(''signal'', FString ''terminated'')]),
      NewContext (WithTimeout Background 30000000000),
      SetNotReadyCall,
      Logged (Entry InfoLevel ''service marked as not ready'' []),
      Logged (Entry InfoLevel ''draining connections'' [(''timeout'', FDuration 30000000000)]),
      ServerShutdown (WithTimeout Background 30000000000),
      Logged (Entry ErrorLevel ''forced shutdown'' [(''error'', FError ''context deadline exceeded'')]),
      Logged (Entry InfoLevel ''server stopped gracefully'' []),
      Cancel, LoggerSync, Exit 0] \<and>
   map_option (ready \<circ> fst)
     (wait_and_shutdown default_config (NewHealthHandler default_config 0)
        [SIGTERM, SIGINT, SIGTERM] 45000000000 None) = Some False \<and>
   map_option (exit_code \<circ> snd)
     (wait_and_shutdown default_config (NewHealthHandler default_config 0)
        [SIGTERM, SIGINT, SIGTERM] 45000000000 None) = Some (Some 0) \<and>
   map_option (exit_code \<circ> snd)
     (wait_and_shutdown default_config (NewHealthHandler default_config 0)
        [SIGINT] 2000000000 None) = Some (Some 0) \<and>
   server_Shutdown (WithTimeout Background (ShutdownTimeout default_config)) 2000000000 None = None"
proof -
  let ?h = "NewHealthHandler default_config 0"
  let ?ctx = "WithTimeout Background (ShutdownTimeout default_config)"
  obtain h1 pre1 mid1 post1 where
    r1: "wait_and_shutdown default_config ?h [SIGTERM, SIGINT, SIGTERM] 45000000000 None =
       Some (h1, pre1 @ SetNotReadyCall # mid1 @ ServerShutdown ?ctx # post1)"
    and f1: "\<not> ready h1"
    and e1: "exit_code (pre1 @ SetNotReadyCall # mid1 @ ServerShutdown ?ctx # post1) = Some 0"
    using shutdown_sequence_order [of default_config ?h SIGTERM "[SIGINT, SIGTERM]" 45000000000 None]
    by blast
  obtain h2 pre2 mid2 post2 where
    r2: "wait_and_shutdown default_config ?h [SIGINT] 2000000000 None =
       Some (h2, pre2 @ SetNotReadyCall # mid2 @ ServerShutdown ?ctx # post2)"
    and e2: "exit_code (pre2 @ SetNotReadyCall # mid2 @ ServerShutdown ?ctx # post2) = Some 0"
    and s2: "server_Shutdown ?ctx 2000000000 None =
       (if (0::int) < 2000000000 \<and> ShutdownTimeout default_config < 2000000000
        then Some ''context deadline exceeded'' else None)"
    using shutdown_sequence_order [of default_config ?h SIGINT "[]" 2000000000 None]
    by blast
  have events: "map_option snd
      (wait_and_shutdown default_config ?h [SIGTERM, SIGINT, SIGTERM] 45000000000 None) =
    Some
     [Logged (Entry InfoLevel ''received shutdown signal'' [(''signal'', FString ''terminated'')]),
      NewContext (WithTimeout Background 30000000000),
      SetNotReadyCall,
      Logged (Entry InfoLevel ''service marked as not ready'' []),
      Logged (Entry InfoLevel ''draining connections'' [(''timeout'', FDuration 30000000000)]),
      ServerShutdown (WithTimeout Background 30000000000),
      Logged (Entry ErrorLevel ''forced shutdown'' [(''error'', FError ''context deadline exceeded'')]),
      Logged (Entry InfoLevel ''server stopped gracefully'' []),
      Cancel, LoggerSync, Exit 0]"
    by (simp add: wait_and_shutdown_def graceful_shutdown_events default_timeout
        server_Shutdown_def forced_record_def signal_String_def)
  have "map_option (ready \<circ> fst)
      (wait_and_shutdown default_config ?h [SIGTERM, SIGINT, SIGTERM] 45000000000 None) = Some False"
    using f1 by (simp add: r1)
  moreover have "map_option (exit_code \<circ> snd)
      (wait_and_shutdown default_config ?h [SIGTERM, SIGINT, SIGTERM] 45000000000 None) = Some (Some 0)"
    using e1 by (simp add: r1)
  moreover have "map_option (exit_code \<circ> snd)
      (wait_and_shutdown default_config ?h [SIGINT] 2000000000 None) = Some (Some 0)"
    using e2 by (simp add: r2)
  moreover have "server_Shutdown ?ctx 2000000000 None = None"
    using s2 by (simp add: default_timeout)
  ultimately show ?thesis
    using events by blast
qed

end
